theory Spec2Isabelle
  imports Complex_Main "HOL-Library.Word" "HOL-Library.Log_Nat"
begin

section \<open>JavaScript strings\<close>

text \<open>
  A JavaScript string is a sequence of 16-bit code units; \<open>length\<close> counts code
  units.  String literals of the source are written \<open>lit ''...''\<close>.
\<close>

type_synonym code_unit = "16 word"
type_synonym jsstring = "code_unit list"

definition lit :: "string \<Rightarrow> jsstring" where
  "lit s = map of_char s"

text \<open>\<open>WhiteSpace\<close> and \<open>LineTerminator\<close> of ECMAScript: what \<open>trim\<close>,
  \<open>parseInt\<close> and \<open>parseFloat\<close> strip.\<close>

definition is_whitespace :: "code_unit \<Rightarrow> bool" where
  "is_whitespace c \<longleftrightarrow>
     c = 0x9 \<or> c = 0xA \<or> c = 0xB \<or> c = 0xC \<or> c = 0xD \<or> c = 0x20 \<or> c = 0xA0 \<or>
     c = 0x1680 \<or> (0x2000 \<le> c \<and> c \<le> 0x200A) \<or> c = 0x2028 \<or> c = 0x2029 \<or>
     c = 0x202F \<or> c = 0x205F \<or> c = 0x3000 \<or> c = 0xFEFF"

definition trim_start :: "jsstring \<Rightarrow> jsstring" where
  "trim_start s = dropWhile is_whitespace s"

text \<open>\<open>String.prototype.trim\<close>.\<close>

definition trim :: "jsstring \<Rightarrow> jsstring" where
  "trim s = rev (dropWhile is_whitespace (rev (dropWhile is_whitespace s)))"

fun starts_with :: "jsstring \<Rightarrow> jsstring \<Rightarrow> bool" where
  "starts_with s [] = True"
| "starts_with [] (p # ps) = False"
| "starts_with (c # s) (p # ps) = (c = p \<and> starts_with s ps)"

text \<open>\<open>String.prototype.includes\<close>: \<open>str_includes s t\<close> is \<open>s.includes(t)\<close>.\<close>

fun str_includes :: "jsstring \<Rightarrow> jsstring \<Rightarrow> bool" where
  "str_includes [] t = (t = [])"
| "str_includes (c # s) t = (starts_with (c # s) t \<or> str_includes s t)"

text \<open>\<open>msg.replace(/^prefix/, "")\<close> for a literal prefix.\<close>

definition strip_prefix :: "jsstring \<Rightarrow> jsstring \<Rightarrow> jsstring" where
  "strip_prefix p s = (if starts_with s p then drop (length p) s else s)"

text \<open>A string is truthy when it is not empty; \<open>undefined\<close> is \<open>None\<close>.\<close>

fun truthy :: "jsstring option \<Rightarrow> bool" where
  "truthy None = False"
| "truthy (Some s) = (s \<noteq> [])"

fun opt_includes :: "jsstring option \<Rightarrow> jsstring \<Rightarrow> bool" where
  "opt_includes None t = False"
| "opt_includes (Some s) t = str_includes s t"

section \<open>JavaScript numbers\<close>

text \<open>
  A Number is an IEEE 754 double: a finite value (a rational that has 53 significant
  bits), an infinity or NaN.  The sign of zero is not kept: nothing below tells
  \<open>-0\<close> from \<open>+0\<close>.
\<close>

datatype jsnum = NaN | Inf bool | Fin rat

text \<open>\<open>floor (log 2 q)\<close> for positive \<open>q\<close>.\<close>

definition ilog2 :: "rat \<Rightarrow> int" where
  "ilog2 q = (let k = bitlen (fst (quotient_of q)) - bitlen (snd (quotient_of q))
              in if 2 powi k \<le> q then k else k - 1)"

text \<open>Round to the nearest integer, ties to even.\<close>

definition round_half_even :: "rat \<Rightarrow> int" where
  "round_half_even q =
     (let f = \<lfloor>q\<rfloor>; d = q - of_int f
      in if d < 1 / 2 then f else if 1 / 2 < d then f + 1
         else if even f then f else f + 1)"

text \<open>
  The double nearest to a rational (round to nearest, ties to even): 53 significant
  bits, the exponent of the last place not below \<open>-1074\<close> (subnormal numbers), and
  infinity from \<open>2 ^ 1024\<close> on.
\<close>

definition round_double :: "rat \<Rightarrow> jsnum" where
  "round_double q =
     (if q = 0 then Fin 0
      else let a = \<bar>q\<bar>;
               e = max (ilog2 a - 52) (- 1074);
               r = of_int (round_half_even (a / 2 powi e)) * 2 powi e
           in if 2 ^ 1024 \<le> r then Inf (0 < q) else Fin (sgn q * r))"

fun isNaN :: "jsnum \<Rightarrow> bool" where
  "isNaN NaN = True"
| "isNaN _ = False"

text \<open>\<open>x <= y\<close> and \<open>x > y\<close> on Numbers: false when either is NaN.\<close>

fun num_le :: "jsnum \<Rightarrow> jsnum \<Rightarrow> bool" where
  "num_le NaN _ = False"
| "num_le _ NaN = False"
| "num_le (Fin a) (Fin b) = (a \<le> b)"
| "num_le (Fin a) (Inf p) = p"
| "num_le (Inf p) (Fin b) = (\<not> p)"
| "num_le (Inf p) (Inf q) = (p \<longrightarrow> q)"





text \<open>The value of a digit in radix 10 or 16, if the code unit is one.\<close>

definition digit_value :: "int \<Rightarrow> code_unit \<Rightarrow> int option" where
  "digit_value radix c =
     (let d = (if 0x30 \<le> c \<and> c \<le> 0x39 then Some (uint c - 0x30)
               else if 0x61 \<le> c \<and> c \<le> 0x7A then Some (uint c - 0x61 + 10)
               else if 0x41 \<le> c \<and> c \<le> 0x5A then Some (uint c - 0x41 + 10)
               else None)
      in case d of None \<Rightarrow> None | Some v \<Rightarrow> if v < radix then Some v else None)"

definition is_digit :: "int \<Rightarrow> code_unit \<Rightarrow> bool" where
  "is_digit radix c \<longleftrightarrow> digit_value radix c \<noteq> None"

text \<open>The integer a digit string denotes: \<open>digits_value radix acc ds\<close> reads \<open>ds\<close>
  after the digits already accumulated in \<open>acc\<close>.\<close>

fun digits_value :: "int \<Rightarrow> int \<Rightarrow> jsstring \<Rightarrow> int" where
  "digits_value radix acc [] = acc"
| "digits_value radix acc (c # cs) =
     digits_value radix (acc * radix + (case digit_value radix c of Some v \<Rightarrow> v | None \<Rightarrow> 0)) cs"

text \<open>
  \<open>parseInt(string)\<close> with no radix argument: leading white space is dropped, then a
  sign, then a \<open>0x\<close> or \<open>0X\<close> prefix selects radix 16; the longest run of digits is
  read and everything after it ignored; no digit at all gives NaN.  The integer read
  becomes a Number, that is, the nearest double.
\<close>

definition parseInt :: "jsstring \<Rightarrow> jsnum" where
  "parseInt string =
     (let s0 = trim_start string;
          negative = (s0 \<noteq> [] \<and> hd s0 = 0x2D);
          s1 = (if s0 \<noteq> [] \<and> (hd s0 = 0x2B \<or> hd s0 = 0x2D) then tl s0 else s0);
          hex = (starts_with s1 (lit ''0x'') \<or> starts_with s1 (lit ''0X''));
          radix = (if hex then 16 else 10);
          s2 = (if hex then drop 2 s1 else s1);
          z = takeWhile (is_digit radix) s2
      in if z = [] then NaN
         else round_double ((if negative then - 1 else 1) * of_int (digits_value radix 0 z)))"

text \<open>The decimal digits of a natural number, and \<open>toString()\<close> of a bigint.\<close>

function digits_of :: "int \<Rightarrow> jsstring" where
  "digits_of n = (if n < 10 then [of_int n + 0x30] else digits_of (n div 10) @ [of_int (n mod 10) + 0x30])"
  by pat_completeness auto
termination
  by (relation "measure nat") auto

declare digits_of.simps [simp del]

definition bigint_toString :: "int \<Rightarrow> jsstring" where
  "bigint_toString n = (if n < 0 then 0x2D # digits_of (- n) else digits_of n)"

text \<open>Division of bigints truncates towards zero.\<close>

definition bigint_div :: "int \<Rightarrow> int \<Rightarrow> int" where
  "bigint_div a b =
     (if (a < 0) = (b < 0) then \<bar>a\<bar> div \<bar>b\<bar> else - (\<bar>a\<bar> div \<bar>b\<bar>))"

definition is_dec_digit :: "code_unit \<Rightarrow> bool" where
  "is_dec_digit c \<longleftrightarrow> 0x30 \<le> c \<and> c \<le> 0x39"

text \<open>The \<open>ExponentPart\<close> at the head of a string, if there is one: \<open>e\<close> or \<open>E\<close>, an
  optional sign and at least one digit.  No exponent part counts as exponent 0.\<close>

definition exponent_part :: "jsstring \<Rightarrow> int" where
  "exponent_part r =
     (if r \<noteq> [] \<and> (hd r = 0x65 \<or> hd r = 0x45)
      then let r1 = tl r;
               negative = (r1 \<noteq> [] \<and> hd r1 = 0x2D);
               r2 = (if r1 \<noteq> [] \<and> (hd r1 = 0x2B \<or> hd r1 = 0x2D) then tl r1 else r1);
               ds = takeWhile is_dec_digit r2
           in if ds = [] then 0 else (if negative then - 1 else 1) * digits_value 10 0 ds
      else 0)"

text \<open>
  \<open>parseFloat(string)\<close>: leading white space is dropped and the longest prefix that is
  a decimal literal is read (a sign, then \<open>Infinity\<close> or digits with at most one point
  and an optional exponent part); no such prefix gives NaN.  The decimal value read
  becomes the nearest double.
\<close>

definition parseFloat :: "jsstring \<Rightarrow> jsnum" where
  "parseFloat string =
     (let s0 = trim_start string;
          negative = (s0 \<noteq> [] \<and> hd s0 = 0x2D);
          s1 = (if s0 \<noteq> [] \<and> (hd s0 = 0x2B \<or> hd s0 = 0x2D) then tl s0 else s0)
      in if starts_with s1 (lit ''Infinity'') then Inf (\<not> negative)
         else
           let ip = takeWhile is_dec_digit s1;
               r1 = dropWhile is_dec_digit s1;
               has_point = (r1 \<noteq> [] \<and> hd r1 = 0x2E);
               fp = (if has_point then takeWhile is_dec_digit (tl r1) else []);
               r2 = (if has_point then dropWhile is_dec_digit (tl r1) else r1)
           in if ip = [] \<and> fp = [] then NaN
              else round_double
                     ((if negative then - 1 else 1) * of_int (digits_value 10 0 (ip @ fp)) *
                      10 powi (exponent_part r2 - int (length fp))))"

section \<open>The ethers library\<close>

text \<open>How \<open>ethers.parseEther\<close> and \<open>ethers.formatEther\<close> can fail.\<close>

datatype ethers_fault = InvalidString | TooManyDecimals | Overflow

text \<open>
  \<open>ethers.parseEther\<close> of ethers v6 (the library is not part of the repository): the
  string must be an optional \<open>-\<close>, digits, an optional point and digits, with at least
  one digit; digits after the 18th decimal must be zeros; the amount in wei must fit
  the signed 512-bit format.
\<close>

definition parseEther :: "jsstring \<Rightarrow> ethers_fault + int" where
  "parseEther v =
     (let negative = (v \<noteq> [] \<and> hd v = 0x2D);
          s = (if negative then tl v else v);
          whole = takeWhile is_dec_digit s;
          r = dropWhile is_dec_digit s;
          r1 = (if r \<noteq> [] \<and> hd r = 0x2E then tl r else r);
          decimal = takeWhile is_dec_digit r1;
          rest = dropWhile is_dec_digit r1
      in if rest \<noteq> [] \<or> (whole = [] \<and> decimal = []) then Inl InvalidString
         else if \<not> list_all (\<lambda>c. c = 0x30) (drop 18 decimal) then Inl TooManyDecimals
         else
           let padded = take 18 (decimal @ replicate (18 - length decimal) 0x30);
               wei = (if negative then - 1 else 1) * digits_value 10 0 (whole @ padded)
           in if - (2 ^ 511) \<le> wei \<and> wei < 2 ^ 511 then Inr wei else Inl Overflow)"

text \<open>
  \<open>BigInt(string)\<close>: white space is trimmed at both ends; what is left is empty (zero),
  decimal digits with an optional sign, or a \<open>0x\<close>, \<open>0o\<close> or \<open>0b\<close> literal without
  sign; anything else is a SyntaxError.
\<close>

definition prefixed_literal :: "int \<Rightarrow> jsstring \<Rightarrow> int option" where
  "prefixed_literal radix ds =
     (if ds \<noteq> [] \<and> list_all (is_digit radix) ds then Some (digits_value radix 0 ds) else None)"

definition StringToBigInt :: "jsstring \<Rightarrow> int option" where
  "StringToBigInt string =
     (let t = trim string in
      if t = [] then Some 0
      else if starts_with t (lit ''0x'') \<or> starts_with t (lit ''0X'') then prefixed_literal 16 (drop 2 t)
      else if starts_with t (lit ''0o'') \<or> starts_with t (lit ''0O'') then prefixed_literal 8 (drop 2 t)
      else if starts_with t (lit ''0b'') \<or> starts_with t (lit ''0B'') then prefixed_literal 2 (drop 2 t)
      else
        let negative = (hd t = 0x2D);
            ds = (if hd t = 0x2B \<or> hd t = 0x2D then tl t else t)
        in if ds \<noteq> [] \<and> list_all is_dec_digit ds
           then Some ((if negative then - 1 else 1) * digits_value 10 0 ds)
           else None)"

text \<open>\<open>getBigInt\<close> of ethers on a string: the empty string is refused, one leading
  \<open>-\<close> is taken off before \<open>BigInt\<close> reads the rest.\<close>

definition getBigInt :: "jsstring \<Rightarrow> int option" where
  "getBigInt v =
     (if v = [] then None
      else if hd v = 0x2D \<and> \<not> (2 \<le> length v \<and> v ! 1 = 0x2D)
      then map_option uminus (StringToBigInt (tl v))
      else StringToBigInt v)"

text \<open>Leading zeros are dropped, leaving at least one character.\<close>

definition strip_leading_zeros :: "jsstring \<Rightarrow> jsstring" where
  "strip_leading_zeros w = (let t = dropWhile (\<lambda>c. c = 0x30) w in if t = [] then take 1 (rev w) else t)"

text \<open>
  The text of a fixed-point number of ethers with 18 decimals: the digits are padded
  with zeros to at least 19, the point is put before the last 18, and zeros are
  dropped from the front of the whole part and from the back of the decimal part,
  one digit staying on either side of the point.
\<close>

definition fixed_toString :: "int \<Rightarrow> jsstring" where
  "fixed_toString val =
     (let str = digits_of \<bar>val\<bar>;
          padded = replicate (19 - length str) 0x30 @ str;
          whole = take (length padded - 18) padded;
          decimal = drop (length padded - 18) padded
      in (if val < 0 then [0x2D] else []) @
         strip_leading_zeros whole @ [0x2E] @ rev (strip_leading_zeros (rev decimal)))"

text \<open>\<open>ethers.formatEther\<close> of ethers v6 on a string.\<close>

definition formatEther :: "jsstring \<Rightarrow> ethers_fault + jsstring" where
  "formatEther v =
     (case getBigInt v of
        None \<Rightarrow> Inl InvalidString
      | Some wei \<Rightarrow> if - (2 ^ 511) \<le> wei \<and> wei < 2 ^ 511 then Inr (fixed_toString wei) else Inl Overflow)"

section \<open>Thrown values\<close>

text \<open>
  What \<open>handleContractError\<close> reads of a caught value: \<open>code\<close>, \<open>message\<close>,
  \<open>reason\<close>, \<open>data\<close>, the nested \<open>error\<close> with its own \<open>code\<close>, \<open>message\<close>,
  \<open>data\<close>, and \<open>error.error.message\<close>.  A field that is absent is \<open>None\<close>.
\<close>

datatype err_code = CodeStr jsstring | CodeNum int

record inner_error =
  inner_message :: "jsstring option"

record nested_error =
  nested_code :: "err_code option"
  nested_message :: "jsstring option"
  nested_data :: "jsstring option"
  nested_inner :: "inner_error option"

record js_error =
  err_code :: "err_code option"
  err_message :: "jsstring option"
  err_reason :: "jsstring option"
  err_data :: "jsstring option"
  err_nested :: "nested_error option"

text \<open>\<open>new Error(msg)\<close>.\<close>

definition new_Error :: "jsstring \<Rightarrow> js_error" where
  "new_Error msg =
     \<lparr>err_code = None, err_message = Some msg, err_reason = None, err_data = None,
      err_nested = None\<rparr>"

text \<open>\<open>error.error?.code\<close>, \<open>error.error?.message\<close>, \<open>error.error?.data\<close> and
  \<open>error.error?.error?.message\<close>.\<close>

definition nested_code_of :: "js_error \<Rightarrow> err_code option" where
  "nested_code_of e = (case err_nested e of None \<Rightarrow> None | Some n \<Rightarrow> nested_code n)"

definition nested_message_of :: "js_error \<Rightarrow> jsstring option" where
  "nested_message_of e = (case err_nested e of None \<Rightarrow> None | Some n \<Rightarrow> nested_message n)"

definition nested_data_of :: "js_error \<Rightarrow> jsstring option" where
  "nested_data_of e = (case err_nested e of None \<Rightarrow> None | Some n \<Rightarrow> nested_data n)"

definition inner_message_of :: "js_error \<Rightarrow> jsstring option" where
  "inner_message_of e =
     (case err_nested e of None \<Rightarrow> None
      | Some n \<Rightarrow> (case nested_inner n of None \<Rightarrow> None | Some i \<Rightarrow> inner_message i))"

text \<open>\<open>a || b\<close> on optional strings.\<close>

definition or_else :: "jsstring option \<Rightarrow> jsstring option \<Rightarrow> jsstring option" where
  "or_else a b = (if truthy a then a else b)"

text \<open>\<open>a || "literal"\<close>.\<close>

definition or_default :: "jsstring option \<Rightarrow> jsstring \<Rightarrow> jsstring" where
  "or_default a d = (if truthy a then the a else d)"

definition NETWORK_MSG :: jsstring where
  "NETWORK_MSG = lit ''Network error: Unable to connect to blockchain. Please check your network connection and try again.''"

definition GAS_MSG :: jsstring where
  "GAS_MSG = lit ''Transaction failed: Unable to estimate gas. The transaction may fail. Please check your inputs and try again.''"

definition PAUSE_MSG :: jsstring where
  "PAUSE_MSG = lit ''The marketplace is currently paused for maintenance. Please try again later.''"

definition PAUSE_SELECTOR :: jsstring where
  "PAUSE_SELECTOR = lit ''0xd93c0665''"

text \<open>The checks of \<open>handleContractError\<close> after the \<open>CALL_EXCEPTION\<close> block.\<close>

definition handleContractError_rest :: "js_error \<Rightarrow> jsstring \<Rightarrow> jsstring" where
  "handleContractError_rest err operation =
     (if opt_includes (inner_message_of err) (lit ''EnforcedPause'') then lit ''MARKETPLACE_PAUSED''
      else if opt_includes (err_reason err) (lit ''EnforcedPause'') then lit ''MARKETPLACE_PAUSED''
      else if nested_data_of err = Some PAUSE_SELECTOR \<or> err_data err = Some PAUSE_SELECTOR
        then lit ''MARKETPLACE_PAUSED''
      else if err_code err = Some (CodeStr (lit ''INSUFFICIENT_FUNDS'')) then lit ''Insufficient funds''
      else if err_code err = Some (CodeNum 4001) \<or> err_code err = Some (CodeStr (lit ''ACTION_REJECTED''))
        then lit ''Transaction rejected''
      else if truthy (err_reason err) then the (err_reason err)
      else if truthy (nested_message_of err)
        then strip_prefix (lit ''execution reverted: '') (the (nested_message_of err))
      else if truthy (err_message err) then the (err_message err)
      else lit ''Failed to '' @ operation)"

definition handleContractError :: "js_error \<Rightarrow> jsstring \<Rightarrow> jsstring" where
  "handleContractError err operation =
     (if err_code err = Some (CodeStr (lit ''SERVER_ERROR'')) \<or>
         err_code err = Some (CodeStr (lit ''NETWORK_ERROR'')) \<or>
         opt_includes (err_message err) (lit ''Internal JSON-RPC'') \<or>
         opt_includes (err_message err) (lit ''JSON-RPC'') \<or>
         nested_code_of err = Some (CodeStr (lit ''SERVER_ERROR''))
      then NETWORK_MSG
      else if err_code err = Some (CodeStr (lit ''UNPREDICTABLE_GAS_LIMIT'')) \<or>
              opt_includes (err_message err) (lit ''gas'') \<or>
              opt_includes (err_message err) (lit ''Gas'')
      then GAS_MSG
      else if err_code err = Some (CodeStr (lit ''CALL_EXCEPTION'')) \<or>
              nested_code_of err = Some (CodeStr (lit ''CALL_EXCEPTION''))
      then (let errorMessage = or_default (or_else (nested_message_of err) (err_message err)) []
            in if err_data err = Some PAUSE_SELECTOR \<or> nested_data_of err = Some PAUSE_SELECTOR
               then PAUSE_MSG
               else if str_includes errorMessage (lit ''EnforcedPause'') \<or>
                       str_includes errorMessage (lit ''execution reverted: EnforcedPause'')
               then PAUSE_MSG
               else if str_includes errorMessage (lit ''unknown custom error'') \<and>
                       err_data err = Some PAUSE_SELECTOR
               then PAUSE_MSG
               else handleContractError_rest err operation)
      else handleContractError_rest err operation)"

section \<open>The contract, the wallet and the effects of the hook\<close>

text \<open>
  The marketplace contract, the wallet and the ethers library are outside the hook: the
  hook sees them only through the outcome of each call it makes.  An environment gives
  that outcome for every call; the theorems hold for every environment.
\<close>

datatype status = StatusNum int | StatusBool bool | StatusNull

record receipt =
  receipt_status :: status
  receipt_hash :: "jsstring option"

text \<open>\<open>tx.wait()\<close> resolves with a receipt or \<open>null\<close>, rejects, or never settles (the
  transaction is never mined).\<close>

datatype wait_outcome = Never | Rejected js_error | Resolved "receipt option"

text \<open>A submitted transaction: its hash, what \<open>wait()\<close> does in the end, and whether
  that takes longer than the 60 seconds \<open>createProduct\<close> allows.\<close>

record tx =
  tx_hash :: jsstring
  tx_wait :: wait_outcome
  tx_late :: bool

text \<open>A product as the contract returns it: \<open>id\<close>, \<open>price\<close> and \<open>salesCount\<close> are
  bigints.\<close>

record raw_product =
  raw_id :: int
  raw_name :: jsstring
  raw_description :: jsstring
  raw_category :: jsstring
  raw_uri :: jsstring
  raw_thumbnailUri :: jsstring
  raw_price :: int
  raw_seller :: jsstring
  raw_salesCount :: int

record raw_stats =
  raw_totalProducts :: int
  raw_totalSales :: int
  raw_totalFeesCollected :: int
  raw_currentFeePercent :: int

record create_args =
  arg_name :: jsstring
  arg_description :: jsstring
  arg_category :: jsstring
  arg_priceInWei :: int
  arg_uri :: jsstring
  arg_thumbnailUri :: jsstring

record update_args =
  upd_id :: jsnum
  upd_name :: jsstring
  upd_description :: jsstring
  upd_category :: jsstring
  upd_priceInWei :: int

record env =
  has_signer :: bool
  has_provider :: bool
  isAddress :: "jsstring \<Rightarrow> bool"
  ethers_error :: "ethers_fault \<Rightarrow> jsstring \<Rightarrow> js_error"
  type_error :: js_error
  c_paused :: "js_error + bool"
  c_estimateGas_createProduct :: "create_args \<Rightarrow> js_error + int"
  c_createProduct :: "create_args \<Rightarrow> int \<Rightarrow> js_error + tx"
  c_updateProduct :: "update_args \<Rightarrow> js_error + tx"
  c_products :: "jsnum \<Rightarrow> js_error + raw_product"
  c_purchaseProduct :: "jsnum \<Rightarrow> int \<Rightarrow> js_error + tx"
  c_getAvailableProducts :: "js_error + raw_product list"
  c_getProduct :: "jsnum \<Rightarrow> js_error + raw_product"
  c_getSellerProducts :: "jsstring \<Rightarrow> js_error + raw_product list"
  c_getProductsByCategory :: "jsstring \<Rightarrow> js_error + raw_product list"
  c_getMarketplaceStats :: "js_error + raw_stats"
  c_hasUserPurchased :: "jsnum \<Rightarrow> jsstring \<Rightarrow> js_error + bool"
  p_getTransaction :: "jsstring \<Rightarrow> js_error + bool"

text \<open>The calls the hook makes on the contract and the provider.  The \<open>Send\<close> calls are
  the state-changing ones: each submits a transaction.\<close>

datatype ledger_call =
    Paused
  | EstimateGasCreate create_args
  | SendCreate create_args int
  | SendUpdate update_args
  | SendPurchase jsnum int
  | Wait jsstring
  | GetTransaction jsstring
  | Products jsnum
  | GetAvailableProducts
  | GetProduct jsnum
  | GetSellerProducts jsstring
  | GetProductsByCategory jsstring
  | GetMarketplaceStats
  | HasUserPurchased jsnum jsstring

text \<open>The status line of the listing form.\<close>

datatype status_kind = Idle | Pending | Success | Failed

record transaction_status =
  ts_status :: status_kind
  ts_message :: jsstring
  ts_txHash :: "jsstring option"
  ts_productId :: "jsstring option"

datatype event =
    SetIsLoading bool
  | SetError "jsstring option"
  | Call ledger_call
  | SetTransactionStatus transaction_status
  | UploadFileToPinata jsstring
  | GenerateThumbnail jsstring
  | AddPopupNotification jsstring
  | ClearForm


fun is_call :: "event \<Rightarrow> bool" where
  "is_call (Call c) = True"
| "is_call _ = False"


definition ledger_calls :: "event list \<Rightarrow> event list" where
  "ledger_calls evs = filter is_call evs"

text \<open>The hook's \<open>error\<close> state after a run that started with it at \<open>e0\<close>.\<close>

fun error_state :: "jsstring option \<Rightarrow> event list \<Rightarrow> jsstring option" where
  "error_state e0 [] = e0"
| "error_state e0 (SetError e # evs) = error_state e evs"
| "error_state e0 (_ # evs) = error_state e0 evs"

subsection \<open>Asynchronous code as a value\<close>

text \<open>
  A run of an async function returns, throws (its promise rejects) or never settles,
  and makes a sequence of calls and state updates on the way.
\<close>

datatype 'a result = Returns 'a | Throws js_error | Hangs

type_synonym 'a comp = "'a result \<times> event list"

definition ret :: "'a \<Rightarrow> 'a comp" where
  "ret x = (Returns x, [])"

definition throw :: "js_error \<Rightarrow> 'a comp" where
  "throw e = (Throws e, [])"

definition emit :: "event \<Rightarrow> unit comp" where
  "emit ev = (Returns (), [ev])"

definition bind :: "'a comp \<Rightarrow> ('a \<Rightarrow> 'b comp) \<Rightarrow> 'b comp" where
  "bind m f =
     (case m of
        (Returns x, evs) \<Rightarrow> (case f x of (r, evs') \<Rightarrow> (r, evs @ evs'))
      | (Throws e, evs) \<Rightarrow> (Throws e, evs)
      | (Hangs, evs) \<Rightarrow> (Hangs, evs))"

text \<open>\<open>try { m } catch (e) { h e }\<close>.\<close>

definition try_catch :: "'a comp \<Rightarrow> (js_error \<Rightarrow> 'a comp) \<Rightarrow> 'a comp" where
  "try_catch m h =
     (case m of
        (Throws e, evs) \<Rightarrow> (case h e of (r, evs') \<Rightarrow> (r, evs @ evs'))
      | (r, evs) \<Rightarrow> (r, evs))"

text \<open>\<open>try { m } finally { ... }\<close> where the \<open>finally\<close> block only updates state.\<close>

definition finally_do :: "'a comp \<Rightarrow> event list \<Rightarrow> 'a comp" where
  "finally_do m fin = (case m of (Hangs, evs) \<Rightarrow> (Hangs, evs) | (r, evs) \<Rightarrow> (r, evs @ fin))"

text \<open>\<open>await contract.method(...)\<close>: the call is made and its outcome is the
  environment's.\<close>

definition call :: "ledger_call \<Rightarrow> js_error + 'a \<Rightarrow> 'a comp" where
  "call c outcome = (case outcome of Inl e \<Rightarrow> (Throws e, [Call c]) | Inr x \<Rightarrow> (Returns x, [Call c]))"

text \<open>\<open>await tx.wait()\<close>.\<close>

definition await_wait :: "tx \<Rightarrow> receipt option comp" where
  "await_wait t =
     (case tx_wait t of
        Never \<Rightarrow> (Hangs, [Call (Wait (tx_hash t))])
      | Rejected e \<Rightarrow> (Throws e, [Call (Wait (tx_hash t))])
      | Resolved r \<Rightarrow> (Returns r, [Call (Wait (tx_hash t))]))"

text \<open>Reading a property of a value that may be \<open>null\<close>: a TypeError when it is.\<close>

definition deref :: "env \<Rightarrow> 'a option \<Rightarrow> 'a comp" where
  "deref env v = (case v of None \<Rightarrow> throw (type_error env) | Some x \<Rightarrow> ret x)"

section \<open>The marketplace hook\<close>

record tx_response =
  success :: bool
  transactionHash :: "jsstring option"
  error :: "jsstring option"
  productId :: "jsstring option"

definition failure :: "jsstring \<Rightarrow> tx_response" where
  "failure msg = \<lparr>success = False, transactionHash = None, error = Some msg, productId = None\<rparr>"

definition succeeded :: "jsstring option \<Rightarrow> tx_response" where
  "succeeded h = \<lparr>success = True, transactionHash = h, error = None, productId = None\<rparr>"

definition CONTRACT_ADDRESS :: jsstring where
  "CONTRACT_ADDRESS = lit ''0xBCe850190CEF1F643450564118f0f346e3c1c40a''"

definition validateContractAddress :: "env \<Rightarrow> jsstring \<Rightarrow> bool" where
  "validateContractAddress env address = isAddress env address"

definition getContract :: "env \<Rightarrow> unit comp" where
  "getContract env =
     (if \<not> has_signer env
      then throw (new_Error (lit ''No signer available. Please connect your wallet.''))
      else if \<not> validateContractAddress env CONTRACT_ADDRESS
      then throw (new_Error (lit ''Invalid contract address''))
      else ret ())"

text \<open>\<open>isNaN(id) || id <= 0\<close>.\<close>

definition invalid_id :: "jsnum \<Rightarrow> bool" where
  "invalid_id n \<longleftrightarrow> isNaN n \<or> num_le n (Fin 0)"

subsection \<open>purchaseProduct\<close>

definition purchaseProduct_try :: "env \<Rightarrow> jsstring \<Rightarrow> int \<Rightarrow> tx_response comp" where
  "purchaseProduct_try env pid priceInWei =
     (let n = parseInt pid in
      if invalid_id n then throw (new_Error (lit ''Invalid product ID''))
      else
        bind (getContract env) (\<lambda>contract.
        bind (call (Products n) (c_products env n)) (\<lambda>product.
        if raw_price product \<noteq> priceInWei then throw (new_Error (lit ''Price mismatch''))
        else
          bind (call (SendPurchase n priceInWei) (c_purchaseProduct env n priceInWei)) (\<lambda>t.
          bind (await_wait t) (\<lambda>r.
          bind (deref env r) (\<lambda>receipt.
          if receipt_status receipt \<noteq> StatusNum 1 then throw (new_Error (lit ''Transaction failed''))
          else ret (succeeded (receipt_hash receipt))))))))"

text \<open>The \<open>catch\<close> block shared by the three transaction operations.\<close>

definition report_failure :: "jsstring \<Rightarrow> js_error \<Rightarrow> tx_response comp" where
  "report_failure operation err =
     (let msg = handleContractError err operation
      in bind (emit (SetError (Some msg))) (\<lambda>_. ret (failure msg)))"

definition purchaseProduct :: "env \<Rightarrow> jsstring \<Rightarrow> int \<Rightarrow> tx_response comp" where
  "purchaseProduct env pid priceInWei =
     bind (emit (SetIsLoading True)) (\<lambda>_.
     bind (emit (SetError None)) (\<lambda>_.
       finally_do
         (try_catch (purchaseProduct_try env pid priceInWei)
            (report_failure (lit ''purchase product'')))
         [SetIsLoading False]))"

subsection \<open>createProduct\<close>

text \<open>\<open>ethers.parseEther(v)\<close> as the hook calls it: a fault is thrown as the library's
  error object.\<close>

definition ethers_parseEther :: "env \<Rightarrow> jsstring \<Rightarrow> int comp" where
  "ethers_parseEther env v =
     (case parseEther v of Inl f \<Rightarrow> throw (ethers_error env f v) | Inr wei \<Rightarrow> ret wei)"

text \<open>The check of the pause status before the transaction: a \<open>try\<close> whose own
  \<open>catch\<close> receives the error thrown when the contract is paused.\<close>

definition createProduct_pause_check :: "env \<Rightarrow> unit comp" where
  "createProduct_pause_check env =
     try_catch
       (bind (call Paused (c_paused env)) (\<lambda>isPaused.
          if isPaused then throw (new_Error PAUSE_MSG) else ret ()))
       (\<lambda>pauseError. ret ())"

text \<open>The gas estimate, with 20 percent added, or 500000 when estimation fails for a
  reason that names neither a pause nor a revert.\<close>

definition createProduct_estimate :: "env \<Rightarrow> create_args \<Rightarrow> int comp" where
  "createProduct_estimate env args =
     try_catch
       (bind (call (EstimateGasCreate args) (c_estimateGas_createProduct env args)) (\<lambda>gasEstimate.
          ret (bigint_div (gasEstimate * 120) 100)))
       (\<lambda>gasError.
          let errorMsg = or_default (or_else (err_reason gasError) (err_message gasError))
                           (lit ''Gas estimation failed'')
          in if str_includes errorMsg (lit ''EnforcedPause'') \<or> str_includes errorMsg (lit ''paused'')
             then throw (new_Error PAUSE_MSG)
             else if str_includes errorMsg (lit ''revert'') \<or>
                     str_includes errorMsg (lit ''execution reverted'')
             then throw (new_Error (lit ''Transaction would fail: '' @ errorMsg))
             else ret 500000)"

text \<open>\<open>Promise.race\<close> of \<open>tx.wait()\<close> against the 60 second timer.\<close>

definition race_wait :: "tx \<Rightarrow> receipt option comp" where
  "race_wait t =
     (if tx_late t then (Throws (new_Error (lit ''Transaction wait timeout'')), [Call (Wait (tx_hash t))])
      else case tx_wait t of
             Never \<Rightarrow> (Throws (new_Error (lit ''Transaction wait timeout'')), [Call (Wait (tx_hash t))])
           | Rejected e \<Rightarrow> (Throws e, [Call (Wait (tx_hash t))])
           | Resolved r \<Rightarrow> (Returns r, [Call (Wait (tx_hash t))]))"

text \<open>Waiting for the receipt: \<open>Inl\<close> is a response returned from inside the
  \<open>catch\<close> block, \<open>Inr\<close> the receipt the function goes on with.\<close>

definition createProduct_wait :: "env \<Rightarrow> tx \<Rightarrow> (tx_response + receipt option) comp" where
  "createProduct_wait env t =
     try_catch
       (bind (race_wait t) (\<lambda>receipt. ret (Inr receipt)))
       (\<lambda>waitError.
          bind
            (try_catch
               (if has_provider env
                then bind (call (GetTransaction (tx_hash t)) (p_getTransaction env (tx_hash t)))
                       (\<lambda>txResponse. ret txResponse)
                else ret False)
               (\<lambda>checkError. ret False))
            (\<lambda>found.
               if found then ret (Inl (succeeded (Some (tx_hash t))))
               else ret (Inl (succeeded (Some (tx_hash t))))))"

text \<open>The checks at the head of \<open>createProduct\<close>, up to the arguments of the contract
  call.\<close>

definition createProduct_validate ::
  "env \<Rightarrow> jsstring \<Rightarrow> jsstring \<Rightarrow> jsstring \<Rightarrow> jsstring \<Rightarrow> jsstring \<Rightarrow> jsstring \<Rightarrow> create_args comp"
where
  "createProduct_validate env name description category priceInBdag uri thumbnailUri =
     (if trim name = [] then throw (new_Error (lit ''Product name required''))
      else if trim description = [] then throw (new_Error (lit ''Description required''))
      else if priceInBdag = [] \<or> num_le (parseFloat priceInBdag) (Fin 0)
        then throw (new_Error (lit ''Valid price required''))
      else if uri = [] \<or> trim uri = [] then throw (new_Error (lit ''Product URI required''))
      else if thumbnailUri = [] \<or> trim thumbnailUri = []
        then throw (new_Error (lit ''Thumbnail URI required''))
      else
        bind (getContract env) (\<lambda>contract.
        bind (ethers_parseEther env priceInBdag) (\<lambda>priceInWei.
        if length (trim name) > 100
          then throw (new_Error (lit ''Product name too long (max 100 characters)''))
        else if length (trim description) > 500
          then throw (new_Error (lit ''Description too long (max 500 characters)''))
        else if length (trim category) > 50
          then throw (new_Error (lit ''Category too long (max 50 characters)''))
        else if length (trim category) = 0 then throw (new_Error (lit ''Category required''))
        else ret \<lparr>arg_name = trim name, arg_description = trim description,
                   arg_category = trim category, arg_priceInWei = priceInWei,
                   arg_uri = trim uri, arg_thumbnailUri = trim thumbnailUri\<rparr>)))"

text \<open>The rest of the \<open>try\<close> block: the pause check, the gas estimate, the
  transaction and its receipt.\<close>

definition createProduct_submit :: "env \<Rightarrow> create_args \<Rightarrow> tx_response comp" where
  "createProduct_submit env args =
     bind (createProduct_pause_check env) (\<lambda>_.
     bind (createProduct_estimate env args) (\<lambda>gasEstimate.
     bind (call (SendCreate args gasEstimate) (c_createProduct env args gasEstimate)) (\<lambda>t.
     bind (createProduct_wait env t) (\<lambda>w.
       case w of
         Inl early \<Rightarrow> ret early
       | Inr None \<Rightarrow> ret (succeeded (Some (tx_hash t)))
       | Inr (Some receipt) \<Rightarrow>
           if receipt_status receipt = StatusNum 0 \<or> receipt_status receipt = StatusBool False
           then throw (new_Error (lit ''Transaction failed on blockchain''))
           else ret (succeeded (or_else (receipt_hash receipt) (Some (tx_hash t))))))))"

definition createProduct_try ::
  "env \<Rightarrow> jsstring \<Rightarrow> jsstring \<Rightarrow> jsstring \<Rightarrow> jsstring \<Rightarrow> jsstring \<Rightarrow> jsstring \<Rightarrow> tx_response comp"
where
  "createProduct_try env name description category priceInBdag uri thumbnailUri =
     bind (createProduct_validate env name description category priceInBdag uri thumbnailUri)
       (createProduct_submit env)"

definition createProduct_catch :: "js_error \<Rightarrow> tx_response comp" where
  "createProduct_catch err =
     (if err_code err = Some (CodeStr (lit ''SERVER_ERROR'')) \<or>
         err_code err = Some (CodeStr (lit ''NETWORK_ERROR'')) \<or>
         opt_includes (err_message err) (lit ''Internal JSON-RPC'')
      then bind (emit (SetError (Some NETWORK_MSG))) (\<lambda>_. ret (failure NETWORK_MSG))
      else if err_code err = Some (CodeStr (lit ''UNPREDICTABLE_GAS_LIMIT'')) \<or>
              opt_includes (err_message err) (lit ''gas'')
      then bind (emit (SetError (Some GAS_MSG))) (\<lambda>_. ret (failure GAS_MSG))
      else report_failure (lit ''create product'') err)"

definition createProduct ::
  "env \<Rightarrow> jsstring \<Rightarrow> jsstring \<Rightarrow> jsstring \<Rightarrow> jsstring \<Rightarrow> jsstring \<Rightarrow> jsstring \<Rightarrow> tx_response comp"
where
  "createProduct env name description category priceInBdag uri thumbnailUri =
     bind (emit (SetIsLoading True)) (\<lambda>_.
     bind (emit (SetError None)) (\<lambda>_.
       finally_do
         (try_catch (createProduct_try env name description category priceInBdag uri thumbnailUri)
            createProduct_catch)
         [SetIsLoading False]))"

subsection \<open>updateProduct\<close>

definition updateProduct_try ::
  "env \<Rightarrow> jsstring \<Rightarrow> jsstring \<Rightarrow> jsstring \<Rightarrow> jsstring \<Rightarrow> jsstring \<Rightarrow> tx_response comp"
where
  "updateProduct_try env pid name description category priceInBdag =
     (if trim name = [] then throw (new_Error (lit ''Product name required''))
      else if trim description = [] then throw (new_Error (lit ''Description required''))
      else if priceInBdag = [] \<or> num_le (parseFloat priceInBdag) (Fin 0)
        then throw (new_Error (lit ''Valid price required''))
      else
        bind (getContract env) (\<lambda>contract.
        bind (ethers_parseEther env priceInBdag) (\<lambda>priceInWei.
        let n = parseInt pid in
        if invalid_id n then throw (new_Error (lit ''Invalid product ID''))
        else
          let args = \<lparr>upd_id = n, upd_name = trim name, upd_description = trim description,
                      upd_category = trim category, upd_priceInWei = priceInWei\<rparr>
          in
          bind (call (SendUpdate args) (c_updateProduct env args)) (\<lambda>t.
          bind (await_wait t) (\<lambda>r.
          bind (deref env r) (\<lambda>receipt.
          ret (succeeded (receipt_hash receipt))))))))"

definition updateProduct ::
  "env \<Rightarrow> jsstring \<Rightarrow> jsstring \<Rightarrow> jsstring \<Rightarrow> jsstring \<Rightarrow> jsstring \<Rightarrow> tx_response comp"
where
  "updateProduct env pid name description category priceInBdag =
     bind (emit (SetIsLoading True)) (\<lambda>_.
     bind (emit (SetError None)) (\<lambda>_.
       finally_do
         (try_catch (updateProduct_try env pid name description category priceInBdag)
            (report_failure (lit ''update product'')))
         [SetIsLoading False]))"

subsection \<open>The queries\<close>

record product =
  product_id :: jsstring
  product_name :: jsstring
  product_description :: jsstring
  product_category :: jsstring
  product_uri :: jsstring
  product_thumbnailUri :: jsstring
  product_price :: jsstring
  product_seller :: jsstring
  product_salesCount :: jsstring

record stats =
  totalProducts :: jsstring
  totalSales :: jsstring
  totalFeesCollected :: jsstring
  currentFeePercent :: jsstring

definition to_product :: "raw_product \<Rightarrow> product" where
  "to_product p =
     \<lparr>product_id = bigint_toString (raw_id p), product_name = raw_name p,
      product_description = raw_description p, product_category = raw_category p,
      product_uri = raw_uri p, product_thumbnailUri = raw_thumbnailUri p,
      product_price = bigint_toString (raw_price p), product_seller = raw_seller p,
      product_salesCount = bigint_toString (raw_salesCount p)\<rparr>"

definition to_stats :: "raw_stats \<Rightarrow> stats" where
  "to_stats st =
     \<lparr>totalProducts = bigint_toString (raw_totalProducts st),
      totalSales = bigint_toString (raw_totalSales st),
      totalFeesCollected = bigint_toString (raw_totalFeesCollected st),
      currentFeePercent = bigint_toString (raw_currentFeePercent st)\<rparr>"

text \<open>The frame shared by the queries: the loading flag and the error state around a
  \<open>try\<close> block whose \<open>catch\<close> records the message and returns a default.\<close>

definition query :: "jsstring \<Rightarrow> 'a \<Rightarrow> 'a comp \<Rightarrow> 'a comp" where
  "query operation dflt body =
     bind (emit (SetIsLoading True)) (\<lambda>_.
     bind (emit (SetError None)) (\<lambda>_.
       finally_do
         (try_catch body
            (\<lambda>err. bind (emit (SetError (Some (handleContractError err operation))))
                      (\<lambda>_. ret dflt)))
         [SetIsLoading False]))"

definition getAvailableProducts :: "env \<Rightarrow> product list comp" where
  "getAvailableProducts env =
     query (lit ''fetch available products'') []
       (bind (getContract env) (\<lambda>contract.
        bind (call GetAvailableProducts (c_getAvailableProducts env)) (\<lambda>products.
        ret (map to_product products))))"

definition getProduct :: "env \<Rightarrow> jsstring \<Rightarrow> product option comp" where
  "getProduct env pid =
     query (lit ''fetch product'') None
       (bind (getContract env) (\<lambda>contract.
        let n = parseInt pid in
        if invalid_id n then throw (new_Error (lit ''Invalid product ID''))
        else bind (call (GetProduct n) (c_getProduct env n)) (\<lambda>p.
             ret (Some (to_product p)))))"

definition getSellerProducts :: "env \<Rightarrow> jsstring \<Rightarrow> product list comp" where
  "getSellerProducts env sellerAddress =
     query (lit ''fetch seller products'') []
       (if \<not> isAddress env sellerAddress then throw (new_Error (lit ''Invalid seller address''))
        else
          bind (getContract env) (\<lambda>contract.
          bind (call (GetSellerProducts sellerAddress) (c_getSellerProducts env sellerAddress))
            (\<lambda>products. ret (map to_product products))))"

definition getProductsByCategory :: "env \<Rightarrow> jsstring \<Rightarrow> product list comp" where
  "getProductsByCategory env category =
     query (lit ''fetch products by category'') []
       (if trim category = [] then throw (new_Error (lit ''Category required''))
        else
          bind (getContract env) (\<lambda>contract.
          bind (call (GetProductsByCategory (trim category))
                  (c_getProductsByCategory env (trim category)))
            (\<lambda>products. ret (map to_product products))))"

definition getMarketplaceStats :: "env \<Rightarrow> stats option comp" where
  "getMarketplaceStats env =
     query (lit ''fetch stats'') None
       (bind (getContract env) (\<lambda>contract.
        bind (call GetMarketplaceStats (c_getMarketplaceStats env)) (\<lambda>st.
        ret (Some (to_stats st)))))"

subsection \<open>hasUserPurchased\<close>

definition hasUserPurchased :: "env \<Rightarrow> jsstring \<Rightarrow> jsstring \<Rightarrow> bool comp" where
  "hasUserPurchased env pid userAddress =
     try_catch
       (if \<not> isAddress env userAddress then throw (new_Error (lit ''Invalid user address''))
        else
          bind (getContract env) (\<lambda>contract.
          let n = parseInt pid in
          if invalid_id n then throw (new_Error (lit ''Invalid product ID''))
          else call (HasUserPurchased n userAddress) (c_hasUserPurchased env n userAddress)))
       (\<lambda>err. ret False)"

section \<open>The currency helpers\<close>

definition ethers_formatEther :: "env \<Rightarrow> jsstring \<Rightarrow> jsstring comp" where
  "ethers_formatEther env v =
     (case formatEther v of Inl f \<Rightarrow> throw (ethers_error env f v) | Inr text \<Rightarrow> ret text)"

definition bdagToWei :: "env \<Rightarrow> jsstring \<Rightarrow> jsstring comp" where
  "bdagToWei env bdag =
     try_catch
       (if bdag = [] \<or> isNaN (parseFloat bdag) then throw (new_Error (lit ''Invalid BDAG amount''))
        else bind (ethers_parseEther env bdag) (\<lambda>wei. ret (bigint_toString wei)))
       (\<lambda>err. throw (new_Error (lit ''Failed to convert BDAG to Wei'')))"

definition weiToBdag :: "env \<Rightarrow> jsstring \<Rightarrow> jsstring comp" where
  "weiToBdag env wei =
     try_catch
       (if wei = [] \<or> isNaN (parseFloat wei) then throw (new_Error (lit ''Invalid Wei amount''))
        else ethers_formatEther env wei)
       (\<lambda>err. ret (lit ''0''))"

section \<open>The listing form\<close>











subsection \<open>The fee preview\<close>





text \<open>The constraints on the strings of a creation request, each taken after
  trimming: a name, a description and a category that are not empty and have at most
  100, 500 and 50 code units, and a file reference and a thumbnail reference that are
  not empty.\<close>

definition string_checks :: "jsstring \<Rightarrow> jsstring \<Rightarrow> jsstring \<Rightarrow> jsstring \<Rightarrow> jsstring \<Rightarrow> bool" where
  "string_checks name description category uri thumbnailUri \<longleftrightarrow>
     trim name \<noteq> [] \<and> length (trim name) \<le> 100 \<and>
     trim description \<noteq> [] \<and> length (trim description) \<le> 500 \<and>
     trim category \<noteq> [] \<and> length (trim category) \<le> 50 \<and>
     trim uri \<noteq> [] \<and> trim thumbnailUri \<noteq> []"

text \<open>
  A plain decimal text: digits, with or without a point and more digits after it, and
  at least one digit in all.  \<open>plain_decimal whole decimal x\<close> says that \<open>x\<close> is such
  a text with the digits \<open>whole\<close> before the point and \<open>decimal\<close> after it.
\<close>

definition plain_decimal :: "jsstring \<Rightarrow> jsstring \<Rightarrow> jsstring \<Rightarrow> bool" where
  "plain_decimal whole decimal x \<longleftrightarrow>
     list_all is_dec_digit whole \<and> list_all is_dec_digit decimal \<and> whole @ decimal \<noteq> [] \<and>
     (x = whole @ 0x2E # decimal \<or> (decimal = [] \<and> x = whole))"

text \<open>
  What a decimal text denotes: the digits before the point, the digits after it, and
  the number they write.
\<close>

definition whole_part :: "jsstring \<Rightarrow> jsstring" where
  "whole_part x = takeWhile is_dec_digit x"

definition fraction_part :: "jsstring \<Rightarrow> jsstring" where
  "fraction_part x = tl (dropWhile is_dec_digit x)"

definition is_decimal :: "jsstring \<Rightarrow> bool" where
  "is_decimal x \<longleftrightarrow> plain_decimal (whole_part x) (fraction_part x) x"

definition decimal_value :: "jsstring \<Rightarrow> rat" where
  "decimal_value x =
     of_int (digits_value 10 0 (whole_part x @ fraction_part x)) / 10 ^ length (fraction_part x)"

section \<open>Sample inputs\<close>

text \<open>A wallet that is connected and a contract that holds one product, priced 1000,
  and accepts every transaction; the theorems below are instantiated here.\<close>

definition sample_product :: raw_product where
  "sample_product =
     \<lparr>raw_id = 1, raw_name = lit ''Art'', raw_description = lit ''A picture'',
      raw_category = lit ''Digital Art'', raw_uri = lit ''ipfs://a'',
      raw_thumbnailUri = lit ''ipfs://b'', raw_price = 1000, raw_seller = lit ''0xS'',
      raw_salesCount = 0\<rparr>"

definition sample_tx :: tx where
  "sample_tx =
     \<lparr>tx_hash = lit ''0xabc'',
      tx_wait = Resolved (Some \<lparr>receipt_status = StatusNum 1, receipt_hash = Some (lit ''0xabc'')\<rparr>),
      tx_late = False\<rparr>"

definition sample_env :: env where
  "sample_env =
     \<lparr>has_signer = True, has_provider = True, isAddress = (\<lambda>a. True),
      ethers_error = (\<lambda>f v. new_Error (lit ''invalid amount'')),
      type_error = new_Error (lit ''Cannot read properties of null''),
      c_paused = Inr False,
      c_estimateGas_createProduct = (\<lambda>a. Inr 100000),
      c_createProduct = (\<lambda>a g. Inr sample_tx),
      c_updateProduct = (\<lambda>a. Inr sample_tx),
      c_products = (\<lambda>n. Inr sample_product),
      c_purchaseProduct = (\<lambda>n v. Inr sample_tx),
      c_getAvailableProducts = Inr [sample_product],
      c_getProduct = (\<lambda>n. Inr sample_product),
      c_getSellerProducts = (\<lambda>a. Inr [sample_product]),
      c_getProductsByCategory = (\<lambda>c. Inr [sample_product]),
      c_getMarketplaceStats =
        Inr \<lparr>raw_totalProducts = 1, raw_totalSales = 0, raw_totalFeesCollected = 0,
             raw_currentFeePercent = 250\<rparr>,
      c_hasUserPurchased = (\<lambda>n a. Inr False),
      p_getTransaction = (\<lambda>h. Inr True)\<rparr>"

definition sample_args :: create_args where
  "sample_args =
     \<lparr>arg_name = lit ''Art'', arg_description = lit ''A picture'', arg_category = lit ''Music'',
      arg_priceInWei = 1000000000000000000, arg_uri = lit ''ipfs://a'',
      arg_thumbnailUri = lit ''ipfs://b''\<rparr>"

text \<open>
  A paused contract behind a wallet that answers the gas estimate with its generic
  error: \<open>paused()\<close> reports \<open>true\<close>, the estimate fails with
  \<open>Internal JSON-RPC error.\<close>, the transaction is accepted for broadcast and
  \<open>wait()\<close> rejects because it reverted.
\<close>

definition rpc_error :: js_error where
  "rpc_error =
     \<lparr>err_code = Some (CodeNum (- 32603)), err_message = Some (lit ''Internal JSON-RPC error.''),
      err_reason = None, err_data = None, err_nested = None\<rparr>"

definition revert_error :: js_error where
  "revert_error =
     \<lparr>err_code = Some (CodeStr (lit ''CALL_EXCEPTION'')),
      err_message = Some (lit ''transaction execution reverted''),
      err_reason = None, err_data = None, err_nested = None\<rparr>"

definition reverted_tx :: tx where
  "reverted_tx = \<lparr>tx_hash = lit ''0xabc'', tx_wait = Rejected revert_error, tx_late = False\<rparr>"

definition paused_env :: env where
  "paused_env =
     sample_env\<lparr>c_paused := Inr True,
                c_estimateGas_createProduct := (\<lambda>a. Inl rpc_error),
                c_createProduct := (\<lambda>a g. Inr reverted_tx)\<rparr>"

text \<open>The same wallet when every read of the contract fails.\<close>

definition offline_env :: env where
  "offline_env =
     sample_env\<lparr>c_getAvailableProducts := Inl (new_Error (lit ''could not connect'')),
                c_getProduct := (\<lambda>n. Inl (new_Error (lit ''could not connect''))),
                c_getSellerProducts := (\<lambda>a. Inl (new_Error (lit ''could not connect''))),
                c_getProductsByCategory := (\<lambda>c. Inl (new_Error (lit ''could not connect''))),
                c_getMarketplaceStats := Inl (new_Error (lit ''could not connect''))\<rparr>"



section \<open>Properties of the number model\<close>

lemma bitlen_powi_bounds:
  assumes "0 < (a::int)"
  shows "2 powi (bitlen a - 1) \<le> (of_int a :: rat)" "(of_int a :: rat) < 2 powi (bitlen a)"
proof -
  from assms have b1: "1 \<le> bitlen a" by (simp add: bitlen_alt_def)
  from bitlen_bounds[OF assms] have lo: "2 ^ nat (bitlen a - 1) \<le> a" and hi: "a < 2 ^ nat (bitlen a)"
    by auto
  have "(of_int (2 ^ nat (bitlen a - 1)) :: rat) \<le> of_int a" using lo by (simp only: of_int_le_iff)
  then show "2 powi (bitlen a - 1) \<le> (of_int a :: rat)"
    using b1 by (simp add: power_int_def)
  have "(of_int a :: rat) < of_int (2 ^ nat (bitlen a))" using hi by (simp only: of_int_less_iff)
  then show "(of_int a :: rat) < 2 powi (bitlen a)"
    using b1 by (simp add: power_int_def)
qed

text \<open>\<open>ilog2\<close> is the floor of the binary logarithm.\<close>

lemma ilog2_bounds:
  assumes "0 < q"
  shows "2 powi (ilog2 q) \<le> q \<and> q < 2 powi (ilog2 q + 1)"
proof -
  obtain a b where ab: "quotient_of q = (a, b)" by (cases "quotient_of q")
  then have b: "0 < b" and q: "q = of_int a / of_int b"
    using quotient_of_denom_pos quotient_of_div by auto
  from assms q b have a: "0 < a" by (simp add: zero_less_divide_iff)
  define k where "k = bitlen a - bitlen b"
  note A = bitlen_powi_bounds[OF a] and B = bitlen_powi_bounds[OF b]
  have bq: "(0::rat) < of_int b" using b by simp
  have lo: "2 powi (k - 1) \<le> q"
  proof -
    have "2 powi (k - 1) * (of_int b :: rat) \<le> 2 powi (k - 1) * 2 powi (bitlen b)"
      using B(2) by (simp add: less_imp_le)
    also have "\<dots> = 2 powi (bitlen a - 1)"
      by (simp add: k_def power_int_add[symmetric])
    also have "\<dots> \<le> of_int a" by (rule A(1))
    finally show ?thesis using bq by (simp add: q pos_le_divide_eq)
  qed
  have hi: "q < 2 powi (k + 1)"
  proof -
    have "(of_int a :: rat) < 2 powi (bitlen a)" by (rule A(2))
    also have "\<dots> = 2 powi (k + 1) * 2 powi (bitlen b - 1)"
      by (simp add: k_def power_int_add[symmetric])
    also have "\<dots> \<le> 2 powi (k + 1) * of_int b"
      using B(1) by simp
    finally show ?thesis using bq by (simp add: q pos_divide_less_eq)
  qed
  show ?thesis
  proof (cases "2 powi k \<le> q")
    case True
    then have "ilog2 q = k" by (simp add: ilog2_def ab k_def Let_def)
    then show ?thesis using True hi by simp
  next
    case False
    then have "ilog2 q = k - 1" by (simp add: ilog2_def ab k_def Let_def)
    then show ?thesis using False lo by simp
  qed
qed

lemma powi2_less_D: "(2::rat) powi a < 2 powi b \<Longrightarrow> a < b"
proof (rule ccontr)
  assume l: "(2::rat) powi a < 2 powi b" and "\<not> a < b"
  then have "b \<le> a" by simp
  then have "(2::rat) powi b \<le> 2 powi a" by (intro power_int_increasing) auto
  with l show False by simp
qed

lemma ilog2_unique:
  assumes "0 < q" "2 powi k \<le> q" "q < 2 powi (k + 1)"
  shows "ilog2 q = k"
proof -
  from ilog2_bounds[OF assms(1)] have lo: "2 powi (ilog2 q) \<le> q" and hi: "q < 2 powi (ilog2 q + 1)"
    by auto
  have "(2::rat) powi (ilog2 q) < 2 powi (k + 1)" using lo assms(3) by simp
  then have 1: "ilog2 q < k + 1" by (rule powi2_less_D)
  have "(2::rat) powi k < 2 powi (ilog2 q + 1)" using hi assms(2) by simp
  then have 2: "k < ilog2 q + 1" by (rule powi2_less_D)
  from 1 2 show ?thesis by simp
qed

lemma round_half_even_of_int: "round_half_even (of_int m) = m"
  by (simp add: round_half_even_def)


text \<open>A number that a double represents is its own rounding.\<close>

lemma round_double_exact:
  assumes q: "q = of_int m * 2 powi e" and m: "\<bar>m\<bar> < 2 ^ 53" and e: "- 1074 \<le> e"
    and r: "\<bar>q\<bar> < 2 ^ 1024"
  shows "round_double q = Fin q"
proof (cases "q = 0")
  case True
  then show ?thesis by (simp add: round_double_def)
next
  case False
  define a where "a = \<bar>q\<bar>"
  have a0: "0 < a" using False by (simp add: a_def)
  have am: "a = of_int \<bar>m\<bar> * 2 powi e" by (simp add: a_def q abs_mult)
  define e' where "e' = max (ilog2 a - 52) (- 1074)"
  have "2 powi (ilog2 a) \<le> a" using ilog2_bounds[OF a0] by simp
  also have "a < 2 ^ 53 * 2 powi e"
  proof -
    have "(of_int \<bar>m\<bar> :: rat) < of_int (2 ^ 53)" using m by (simp only: of_int_less_iff)
    then show ?thesis unfolding am by (simp)
  qed
  also have "\<dots> = 2 powi (53 + e)" by (simp add: power_int_add)
  finally have "ilog2 a < 53 + e" by (rule powi2_less_D)
  then have ee: "e' \<le> e" using e by (simp add: e'_def)
  have "a / 2 powi e' = of_int \<bar>m\<bar> * 2 powi (e - e')"
    by (simp add: am power_int_diff)
  also have "\<dots> = of_int (\<bar>m\<bar> * 2 ^ nat (e - e'))"
    using ee by (simp add: power_int_def)
  finally have "round_half_even (a / 2 powi e') = \<bar>m\<bar> * 2 ^ nat (e - e')"
    by (simp only: round_half_even_of_int)
  then have "of_int (round_half_even (a / 2 powi e')) * 2 powi e' = (of_int \<bar>m\<bar> * 2 powi (e - e')) * 2 powi e'"
    using ee by (simp add: power_int_def)
  also have "\<dots> = a" by (simp add: am power_int_diff)
  finally have rr: "of_int (round_half_even (a / 2 powi e')) * 2 powi e' = a" .
  have "sgn q * a = q" unfolding a_def by (simp add: sgn_mult_abs)
  then show ?thesis
    using False r rr unfolding round_double_def Let_def a_def[symmetric] e'_def[symmetric]
    by (simp add: a_def)
qed

lemma round_double_of_int:
  assumes "\<bar>m\<bar> < 2 ^ 53"
  shows "round_double (of_int m) = Fin (of_int m)"
proof -
  have "\<bar>of_int m :: rat\<bar> = of_int \<bar>m\<bar>" by simp
  also have "\<dots> < of_int (2 ^ 53)" using assms by (simp only: of_int_less_iff)
  also have "\<dots> < 2 ^ 1024" by simp
  finally show ?thesis
    using round_double_exact[of "of_int m" m 0] assms by simp
qed

lemma parseInt_1: "parseInt (lit ''1'') = Fin 1"
  using round_double_of_int[of 1]
  by (simp add: parseInt_def lit_def trim_start_def is_whitespace_def is_digit_def
      digit_value_def Let_def)

section \<open>Properties of the hook\<close>

lemmas comp_defs = bind_def try_catch_def finally_do_def emit_def ret_def throw_def call_def
  deref_def await_wait_def

lemma handleContractError_new_Error:
  "handleContractError (new_Error msg) operation =
     (if str_includes msg (lit ''Internal JSON-RPC'') \<or> str_includes msg (lit ''JSON-RPC'') then NETWORK_MSG
      else if str_includes msg (lit ''gas'') \<or> str_includes msg (lit ''Gas'') then GAS_MSG
      else if msg \<noteq> [] then msg else lit ''Failed to '' @ operation)"
  by (simp add: handleContractError_def handleContractError_rest_def new_Error_def
      nested_code_of_def nested_message_of_def nested_data_of_def inner_message_of_def)


subsection \<open>purchaseProduct and the price\<close>

lemmas purchase_defs = purchaseProduct_def purchaseProduct_try_def getContract_def
  validateContractAddress_def report_failure_def comp_defs Let_def






subsection \<open>hasUserPurchased\<close>

lemma getContract_cases:
  "getContract env = (if has_signer env \<and> isAddress env CONTRACT_ADDRESS then (Returns (), [])
     else if \<not> has_signer env then (Throws (new_Error (lit ''No signer available. Please connect your wallet.'')), [])
     else (Throws (new_Error (lit ''Invalid contract address'')), []))"
  by (simp add: getContract_def validateContractAddress_def ret_def throw_def)

lemma hasUserPurchased_eq:
  "fst (hasUserPurchased env pid userAddress) =
     Returns (isAddress env userAddress \<and> has_signer env \<and> isAddress env CONTRACT_ADDRESS \<and>
       \<not> invalid_id (parseInt pid) \<and> c_hasUserPurchased env (parseInt pid) userAddress = Inr True)"
  by (cases "c_hasUserPurchased env (parseInt pid) userAddress")
     (auto simp add: hasUserPurchased_def getContract_cases comp_defs Let_def)

lemma hasUserPurchased_returns: "\<exists>b. fst (hasUserPurchased env pid userAddress) = Returns b"
  by (simp add: hasUserPurchased_eq)

text \<open>
  Claim C6.  \<open>hasUserPurchased\<close> always returns a boolean and never throws, whatever
  the product id, the address and the outcome of the contract call.  It returns
  \<open>false\<close> when the address is not an address, no wallet is connected, the contract
  address is invalid, the id does not parse to a number above zero, or the contract
  call fails; in the first four cases the contract is not called at all.  Otherwise it
  returns the contract's answer.
\<close>

theorem hasUserPurchased_never_fails:
  "(\<exists>b. fst (hasUserPurchased env pid userAddress) = Returns b) \<and>
   (\<not> isAddress env userAddress \<or> \<not> has_signer env \<or> \<not> isAddress env CONTRACT_ADDRESS \<or>
    invalid_id (parseInt pid) \<or> (\<exists>e. c_hasUserPurchased env (parseInt pid) userAddress = Inl e) \<longrightarrow>
      fst (hasUserPurchased env pid userAddress) = Returns False) \<and>
   (\<not> isAddress env userAddress \<or> \<not> has_signer env \<or> \<not> isAddress env CONTRACT_ADDRESS \<or>
    invalid_id (parseInt pid) \<longrightarrow> ledger_calls (snd (hasUserPurchased env pid userAddress)) = []) \<and>
   (isAddress env userAddress \<and> has_signer env \<and> isAddress env CONTRACT_ADDRESS \<and>
    \<not> invalid_id (parseInt pid) \<and> c_hasUserPurchased env (parseInt pid) userAddress = Inr b \<longrightarrow>
      fst (hasUserPurchased env pid userAddress) = Returns b)"
proof (intro conjI impI)
  show "\<exists>b. fst (hasUserPurchased env pid userAddress) = Returns b"
    by (rule hasUserPurchased_returns)
next
  assume "\<not> isAddress env userAddress \<or> \<not> has_signer env \<or> \<not> isAddress env CONTRACT_ADDRESS \<or>
    invalid_id (parseInt pid) \<or> (\<exists>e. c_hasUserPurchased env (parseInt pid) userAddress = Inl e)"
  then show "fst (hasUserPurchased env pid userAddress) = Returns False"
    by (auto simp add: hasUserPurchased_eq)
next
  assume "\<not> isAddress env userAddress \<or> \<not> has_signer env \<or> \<not> isAddress env CONTRACT_ADDRESS \<or>
    invalid_id (parseInt pid)"
  then show "ledger_calls (snd (hasUserPurchased env pid userAddress)) = []"
    by (auto simp add: hasUserPurchased_def getContract_cases comp_defs Let_def ledger_calls_def)
next
  assume "isAddress env userAddress \<and> has_signer env \<and> isAddress env CONTRACT_ADDRESS \<and>
    \<not> invalid_id (parseInt pid) \<and> c_hasUserPurchased env (parseInt pid) userAddress = Inr b"
  then show "fst (hasUserPurchased env pid userAddress) = Returns b"
    by (simp add: hasUserPurchased_eq)
qed

lemma parseInt_abc: "parseInt (lit ''abc'') = NaN"
  by (simp add: parseInt_def lit_def trim_start_def is_whitespace_def is_digit_def
      digit_value_def Let_def)

theorem hasUserPurchased_never_fails_witness:
  "fst (hasUserPurchased sample_env (lit ''abc'') (lit ''0xB'')) = Returns False \<and>
   ledger_calls (snd (hasUserPurchased sample_env (lit ''abc'') (lit ''0xB''))) = [] \<and>
   fst (hasUserPurchased (sample_env\<lparr>c_hasUserPurchased := (\<lambda>n a. Inr True)\<rparr>) (lit ''1'') (lit ''0xB''))
     = Returns True"
  using hasUserPurchased_never_fails[of sample_env "lit ''abc''" "lit ''0xB''"]
    hasUserPurchased_never_fails[of "sample_env\<lparr>c_hasUserPurchased := (\<lambda>n a. Inr True)\<rparr>" "lit ''1''" "lit ''0xB''" True]
  by (simp add: sample_env_def parseInt_abc parseInt_1 invalid_id_def)

subsection \<open>The queries\<close>

lemma query_fst:
  "fst (query operation dflt body) =
     (case fst body of Returns x \<Rightarrow> Returns x | Throws e \<Rightarrow> Returns dflt | Hangs \<Rightarrow> Hangs)"
  by (cases body; cases "fst body") (simp_all add: query_def comp_defs)

lemma getAvailableProducts_eq:
  "fst (getAvailableProducts env) =
     Returns (if has_signer env \<and> isAddress env CONTRACT_ADDRESS
              then (case c_getAvailableProducts env of Inl e \<Rightarrow> [] | Inr ps \<Rightarrow> map to_product ps)
              else [])"
  by (cases "c_getAvailableProducts env")
     (simp_all add: getAvailableProducts_def query_fst getContract_cases comp_defs)

lemma getSellerProducts_eq:
  "fst (getSellerProducts env a) =
     Returns (if isAddress env a \<and> has_signer env \<and> isAddress env CONTRACT_ADDRESS
              then (case c_getSellerProducts env a of Inl e \<Rightarrow> [] | Inr ps \<Rightarrow> map to_product ps)
              else [])"
  by (cases "c_getSellerProducts env a")
     (simp_all add: getSellerProducts_def query_fst getContract_cases comp_defs)

lemma getProductsByCategory_eq:
  "fst (getProductsByCategory env c) =
     Returns (if trim c \<noteq> [] \<and> has_signer env \<and> isAddress env CONTRACT_ADDRESS
              then (case c_getProductsByCategory env (trim c) of Inl e \<Rightarrow> [] | Inr ps \<Rightarrow> map to_product ps)
              else [])"
  by (cases "c_getProductsByCategory env (trim c)")
     (simp_all add: getProductsByCategory_def query_fst getContract_cases comp_defs)

lemma getProduct_eq:
  "fst (getProduct env pid) =
     Returns (if has_signer env \<and> isAddress env CONTRACT_ADDRESS \<and> \<not> invalid_id (parseInt pid)
              then (case c_getProduct env (parseInt pid) of Inl e \<Rightarrow> None | Inr p \<Rightarrow> Some (to_product p))
              else None)"
  by (cases "c_getProduct env (parseInt pid)")
     (simp_all add: getProduct_def query_fst getContract_cases comp_defs Let_def)

lemma getMarketplaceStats_eq:
  "fst (getMarketplaceStats env) =
     Returns (if has_signer env \<and> isAddress env CONTRACT_ADDRESS
              then (case c_getMarketplaceStats env of Inl e \<Rightarrow> None | Inr st \<Rightarrow> Some (to_stats st))
              else None)"
  by (cases "c_getMarketplaceStats env")
     (simp_all add: getMarketplaceStats_def query_fst getContract_cases comp_defs)

text \<open>
  Claim C7.  The five queries always return and never throw.  When no wallet is
  connected, the contract address is invalid, the argument is refused or the contract
  call fails, \<open>getAvailableProducts\<close>, \<open>getSellerProducts\<close> and
  \<open>getProductsByCategory\<close> return the empty list, and \<open>getProduct\<close> and
  \<open>getMarketplaceStats\<close> return \<open>null\<close>.
\<close>

theorem queries_never_raise:
  "(\<exists>r. fst (getAvailableProducts env) = Returns r) \<and>
   (\<exists>r. fst (getSellerProducts env a) = Returns r) \<and>
   (\<exists>r. fst (getProductsByCategory env c) = Returns r) \<and>
   (\<exists>r. fst (getProduct env pid) = Returns r) \<and>
   (\<exists>r. fst (getMarketplaceStats env) = Returns r) \<and>
   (\<not> has_signer env \<or> \<not> isAddress env CONTRACT_ADDRESS \<or> (\<exists>e. c_getAvailableProducts env = Inl e)
      \<longrightarrow> fst (getAvailableProducts env) = Returns []) \<and>
   (\<not> isAddress env a \<or> \<not> has_signer env \<or> \<not> isAddress env CONTRACT_ADDRESS \<or>
    (\<exists>e. c_getSellerProducts env a = Inl e)
      \<longrightarrow> fst (getSellerProducts env a) = Returns []) \<and>
   (trim c = [] \<or> \<not> has_signer env \<or> \<not> isAddress env CONTRACT_ADDRESS \<or>
    (\<exists>e. c_getProductsByCategory env (trim c) = Inl e)
      \<longrightarrow> fst (getProductsByCategory env c) = Returns []) \<and>
   (\<not> has_signer env \<or> \<not> isAddress env CONTRACT_ADDRESS \<or> invalid_id (parseInt pid) \<or>
    (\<exists>e. c_getProduct env (parseInt pid) = Inl e)
      \<longrightarrow> fst (getProduct env pid) = Returns None) \<and>
   (\<not> has_signer env \<or> \<not> isAddress env CONTRACT_ADDRESS \<or> (\<exists>e. c_getMarketplaceStats env = Inl e)
      \<longrightarrow> fst (getMarketplaceStats env) = Returns None)"
  by (auto simp add: getAvailableProducts_eq getSellerProducts_eq getProductsByCategory_eq
      getProduct_eq getMarketplaceStats_eq)

lemma trim_Music: "trim (lit ''Music'') = lit ''Music''"
  by (simp add: trim_def lit_def is_whitespace_def)

theorem queries_never_raise_witness:
  "fst (getAvailableProducts offline_env) = Returns [] \<and>
   fst (getSellerProducts offline_env (lit ''0xS'')) = Returns [] \<and>
   fst (getProductsByCategory offline_env (lit ''Music'')) = Returns [] \<and>
   fst (getProduct offline_env (lit ''1'')) = Returns None \<and>
   fst (getMarketplaceStats offline_env) = Returns None"
  using queries_never_raise[of offline_env "lit ''0xS''" "lit ''Music''" "lit ''1''"]
  by (simp add: offline_env_def sample_env_def trim_Music)

subsection \<open>createProduct\<close>

lemma trim_Nil [simp]: "trim [] = []"
  by (simp add: trim_def)

lemma createProduct_validate_events:
  "snd (createProduct_validate env name description category priceInBdag uri thumbnailUri) = []"
  by (cases "parseEther priceInBdag")
     (simp_all add: createProduct_validate_def getContract_cases ethers_parseEther_def comp_defs)


lemma createProduct_validate_Returns:
  assumes "string_checks name description category uri thumbnailUri"
    "priceInBdag \<noteq> []" "\<not> num_le (parseFloat priceInBdag) (Fin 0)"
    "has_signer env" "isAddress env CONTRACT_ADDRESS" "parseEther priceInBdag = Inr wei"
  shows "createProduct_validate env name description category priceInBdag uri thumbnailUri =
     (Returns \<lparr>arg_name = trim name, arg_description = trim description,
               arg_category = trim category, arg_priceInWei = wei,
               arg_uri = trim uri, arg_thumbnailUri = trim thumbnailUri\<rparr>, [])"
  using assms
  by (auto simp add: createProduct_validate_def getContract_cases ethers_parseEther_def comp_defs
      string_checks_def)

lemma createProduct_validate_Throws:
  assumes "\<not> string_checks name description category uri thumbnailUri"
  shows "\<exists>e. fst (createProduct_validate env name description category priceInBdag uri thumbnailUri) = Throws e"
  using assms
  by (cases "parseEther priceInBdag")
     (auto simp add: createProduct_validate_def getContract_cases ethers_parseEther_def comp_defs
      string_checks_def)

lemma createProduct_catch_failure:
  "\<exists>msg. createProduct_catch err = (Returns (failure msg), [SetError (Some msg)])"
  by (simp add: createProduct_catch_def report_failure_def comp_defs Let_def)

lemma createProduct_rejected:
  assumes "fst (createProduct_validate env name description category priceInBdag uri thumbnailUri) = Throws e"
  shows "\<exists>msg. createProduct env name description category priceInBdag uri thumbnailUri =
     (Returns (failure msg), [SetIsLoading True, SetError None, SetError (Some msg), SetIsLoading False])"
proof -
  from createProduct_catch_failure[of e] obtain msg
    where m: "createProduct_catch e = (Returns (failure msg), [SetError (Some msg)])" by blast
  have "createProduct_validate env name description category priceInBdag uri thumbnailUri = (Throws e, [])"
    using assms createProduct_validate_events[of env name description category priceInBdag uri thumbnailUri]
    by (simp add: prod_eq_iff)
  then have "createProduct env name description category priceInBdag uri thumbnailUri =
     (Returns (failure msg), [SetIsLoading True, SetError None, SetError (Some msg), SetIsLoading False])"
    by (simp add: createProduct_def createProduct_try_def comp_defs m)
  then show ?thesis by blast
qed

lemma createProduct_pause_check_ignored:
  "createProduct_pause_check env = (Returns (), [Call Paused])"
  by (cases "c_paused env") (simp_all add: createProduct_pause_check_def comp_defs)

lemma createProduct_wait_late:
  assumes "tx_late t \<or> tx_wait t = Never \<or> (\<exists>e. tx_wait t = Rejected e)"
  shows "fst (createProduct_wait env t) = Returns (Inl (succeeded (Some (tx_hash t))))"
  using assms
  by (cases "p_getTransaction env (tx_hash t)"; cases "tx_wait t")
     (auto simp add: createProduct_wait_def race_wait_def comp_defs)

lemma createProduct_wait_resolved:
  assumes "\<not> tx_late t" "tx_wait t = Resolved r"
  shows "createProduct_wait env t = (Returns (Inr r), [Call (Wait (tx_hash t))])"
  using assms by (simp add: createProduct_wait_def race_wait_def comp_defs)

lemma bind_fst_Returns:
  "fst m = Returns x \<Longrightarrow> fst (bind m f) = fst (f x)"
  by (cases m) (simp add: bind_def split: prod.splits)

lemma createProduct_submit_fst:
  assumes g: "fst (createProduct_estimate env args) = Returns g"
      and t: "c_createProduct env args g = Inr t"
  shows "fst (createProduct_submit env args) =
     fst (bind (createProduct_wait env t) (\<lambda>w.
       case w of
         Inl early \<Rightarrow> ret early
       | Inr None \<Rightarrow> ret (succeeded (Some (tx_hash t)))
       | Inr (Some receipt) \<Rightarrow>
           if receipt_status receipt = StatusNum 0 \<or> receipt_status receipt = StatusBool False
           then throw (new_Error (lit ''Transaction failed on blockchain''))
           else ret (succeeded (or_else (receipt_hash receipt) (Some (tx_hash t))))))"
proof -
  have c: "fst (call (SendCreate args g) (c_createProduct env args g)) = Returns t"
    by (simp add: call_def t)
  show ?thesis
    unfolding createProduct_submit_def
    by (simp add: bind_fst_Returns createProduct_pause_check_ignored g c)
qed

lemma hce_failed_on_chain:
  "handleContractError (new_Error (lit ''Transaction failed on blockchain'')) operation
     = lit ''Transaction failed on blockchain''"
  by (simp add: handleContractError_new_Error) (simp add: lit_def)

lemma createProduct_catch_new_Error:
  "createProduct_catch (new_Error msg) =
     (if str_includes msg (lit ''Internal JSON-RPC'')
      then (Returns (failure NETWORK_MSG), [SetError (Some NETWORK_MSG)])
      else if str_includes msg (lit ''gas'')
      then (Returns (failure GAS_MSG), [SetError (Some GAS_MSG)])
      else (Returns (failure (handleContractError (new_Error msg) (lit ''create product''))),
            [SetError (Some (handleContractError (new_Error msg) (lit ''create product'')))]))"
  by (simp add: createProduct_catch_def report_failure_def comp_defs Let_def)
     (simp add: new_Error_def)

lemma createProduct_catch_failed_on_chain:
  "createProduct_catch (new_Error (lit ''Transaction failed on blockchain'')) =
     (Returns (failure (lit ''Transaction failed on blockchain'')),
      [SetError (Some (lit ''Transaction failed on blockchain''))])"
proof -
  have "\<not> str_includes (lit ''Transaction failed on blockchain'') (lit ''Internal JSON-RPC'')"
       "\<not> str_includes (lit ''Transaction failed on blockchain'') (lit ''gas'')"
    by (simp_all add: lit_def)
  then show ?thesis
    by (simp add: createProduct_catch_new_Error hce_failed_on_chain)
qed

lemma createProduct_fst:
  "fst (createProduct env name description category priceInBdag uri thumbnailUri) =
     (case fst (createProduct_try env name description category priceInBdag uri thumbnailUri) of
        Returns r \<Rightarrow> Returns r
      | Throws e \<Rightarrow> fst (createProduct_catch e)
      | Hangs \<Rightarrow> Hangs)"
proof -
  show ?thesis
  proof (cases "createProduct_try env name description category priceInBdag uri thumbnailUri")
    case (Pair r evs)
    show ?thesis
    proof (cases r)
      case (Throws e)
      from createProduct_catch_failure[of e] obtain msg
        where "createProduct_catch e = (Returns (failure msg), [SetError (Some msg)])" by blast
      with Pair Throws show ?thesis by (simp add: createProduct_def comp_defs)
    qed (simp_all add: Pair createProduct_def comp_defs)
  qed
qed

text \<open>
  Claim C10.  Take a creation request that passes the checks, whose gas estimate is
  settled and whose transaction the contract call accepts, so that a hash is obtained.
  If waiting for the receipt runs into the 60 second timeout, never settles, rejects, or
  yields no receipt, \<open>createProduct\<close> returns success with that hash, whether or not
  the transaction was mined.  If a receipt arrives whose status is 0 (or \<open>false\<close>),
  \<open>createProduct\<close> returns the failure \<open>Transaction failed on blockchain\<close>.
\<close>

theorem createProduct_success_without_receipt:
  assumes v: "fst (createProduct_validate env name description category priceInBdag uri thumbnailUri) = Returns args"
      and g: "fst (createProduct_estimate env args) = Returns gasLimit"
      and t: "c_createProduct env args gasLimit = Inr t"
  shows "(tx_late t \<or> tx_wait t = Never \<or> (\<exists>e. tx_wait t = Rejected e) \<or> tx_wait t = Resolved None \<longrightarrow>
            fst (createProduct env name description category priceInBdag uri thumbnailUri) =
              Returns (succeeded (Some (tx_hash t)))) \<and>
         (\<not> tx_late t \<and> tx_wait t = Resolved (Some receipt) \<and>
          (receipt_status receipt = StatusNum 0 \<or> receipt_status receipt = StatusBool False) \<longrightarrow>
            fst (createProduct env name description category priceInBdag uri thumbnailUri) =
              Returns (failure (lit ''Transaction failed on blockchain'')))"
proof -
  let ?cp = "createProduct env name description category priceInBdag uri thumbnailUri"
  let ?body = "createProduct_try env name description category priceInBdag uri thumbnailUri"
  have tr: "fst ?body = fst (createProduct_submit env args)"
    unfolding createProduct_try_def by (rule bind_fst_Returns[OF v])
  note sub = createProduct_submit_fst[OF g t]
  show ?thesis
  proof (intro conjI impI)
    assume a: "tx_late t \<or> tx_wait t = Never \<or> (\<exists>e. tx_wait t = Rejected e) \<or> tx_wait t = Resolved None"
    show "fst ?cp = Returns (succeeded (Some (tx_hash t)))"
    proof (cases "tx_late t \<or> tx_wait t = Never \<or> (\<exists>e. tx_wait t = Rejected e)")
      case True
      from createProduct_wait_late[OF True, of env]
      have "fst ?body = Returns (succeeded (Some (tx_hash t)))"
        by (simp add: tr sub bind_fst_Returns ret_def)
      then show ?thesis by (simp add: createProduct_fst)
    next
      case False
      with a have "\<not> tx_late t" "tx_wait t = Resolved None" by auto
      from createProduct_wait_resolved[OF this, of env]
      have "fst ?body = Returns (succeeded (Some (tx_hash t)))"
        by (simp add: tr sub bind_def ret_def)
      then show ?thesis by (simp add: createProduct_fst)
    qed
  next
    assume b: "\<not> tx_late t \<and> tx_wait t = Resolved (Some receipt) \<and>
          (receipt_status receipt = StatusNum 0 \<or> receipt_status receipt = StatusBool False)"
    then have "\<not> tx_late t" "tx_wait t = Resolved (Some receipt)" by auto
    from createProduct_wait_resolved[OF this, of env] b
    have "fst ?body = Throws (new_Error (lit ''Transaction failed on blockchain''))"
      by (auto simp add: tr sub bind_def throw_def)
    then show "fst ?cp = Returns (failure (lit ''Transaction failed on blockchain''))"
      by (simp add: createProduct_fst createProduct_catch_failed_on_chain)
  qed
qed

lemma trim_samples:
  "trim (lit ''Art'') = lit ''Art''" "trim (lit ''A picture'') = lit ''A picture''"
  "trim (lit ''Music'') = lit ''Music''" "trim (lit ''ipfs://a'') = lit ''ipfs://a''"
  "trim (lit ''ipfs://b'') = lit ''ipfs://b''"
  by (simp_all add: trim_def lit_def is_whitespace_def)

lemma parseFloat_1: "parseFloat (lit ''1'') = Fin 1"
  using round_double_of_int[of 1]
  by (simp add: parseFloat_def lit_def trim_start_def is_whitespace_def is_dec_digit_def
      digit_value_def exponent_part_def Let_def)

lemma parseEther_1: "parseEther (lit ''1'') = Inr 1000000000000000000"
  by code_simp

lemma sample_validate:
  assumes "has_signer env" "isAddress env CONTRACT_ADDRESS"
  shows "createProduct_validate env (lit ''Art'') (lit ''A picture'') (lit ''Music'') (lit ''1'')
           (lit ''ipfs://a'') (lit ''ipfs://b'') = (Returns sample_args, [])"
proof -
  have s: "string_checks (lit ''Art'') (lit ''A picture'') (lit ''Music'') (lit ''ipfs://a'') (lit ''ipfs://b'')"
    by (simp add: string_checks_def trim_samples) (simp add: lit_def)
  have p: "lit ''1'' \<noteq> []" "\<not> num_le (parseFloat (lit ''1'')) (Fin 0)"
    by (simp_all add: parseFloat_1) (simp add: lit_def)
  show ?thesis
    using createProduct_validate_Returns[OF s p assms parseEther_1]
    by (simp add: sample_args_def trim_samples)
qed

lemma estimate_ok:
  assumes "c_estimateGas_createProduct env args = Inr g"
  shows "createProduct_estimate env args = (Returns (bigint_div (g * 120) 100), [Call (EstimateGasCreate args)])"
  using assms by (simp add: createProduct_estimate_def comp_defs)

theorem createProduct_success_without_receipt_witness:
  "fst (createProduct (sample_env\<lparr>c_createProduct := (\<lambda>a g. Inr (sample_tx\<lparr>tx_late := True\<rparr>))\<rparr>)
          (lit ''Art'') (lit ''A picture'') (lit ''Music'') (lit ''1'') (lit ''ipfs://a'') (lit ''ipfs://b''))
     = Returns (succeeded (Some (lit ''0xabc''))) \<and>
   fst (createProduct
          (sample_env\<lparr>c_createProduct := (\<lambda>a g. Inr (sample_tx\<lparr>tx_wait :=
             Resolved (Some \<lparr>receipt_status = StatusNum 0, receipt_hash = Some (lit ''0xabc'')\<rparr>)\<rparr>))\<rparr>)
          (lit ''Art'') (lit ''A picture'') (lit ''Music'') (lit ''1'') (lit ''ipfs://a'') (lit ''ipfs://b''))
     = Returns (failure (lit ''Transaction failed on blockchain''))"
proof -
  let ?late = "sample_tx\<lparr>tx_late := True\<rparr>"
  let ?zero = "sample_tx\<lparr>tx_wait :=
             Resolved (Some \<lparr>receipt_status = StatusNum 0, receipt_hash = Some (lit ''0xabc'')\<rparr>)\<rparr>"
  let ?e1 = "sample_env\<lparr>c_createProduct := (\<lambda>a g. Inr ?late)\<rparr>"
  let ?e2 = "sample_env\<lparr>c_createProduct := (\<lambda>a g. Inr ?zero)\<rparr>"
  have v1: "fst (createProduct_validate ?e1 (lit ''Art'') (lit ''A picture'') (lit ''Music'') (lit ''1'')
           (lit ''ipfs://a'') (lit ''ipfs://b'')) = Returns sample_args"
    by (subst sample_validate) (simp_all add: sample_env_def)
  have v2: "fst (createProduct_validate ?e2 (lit ''Art'') (lit ''A picture'') (lit ''Music'') (lit ''1'')
           (lit ''ipfs://a'') (lit ''ipfs://b'')) = Returns sample_args"
    by (subst sample_validate) (simp_all add: sample_env_def)
  have g1: "fst (createProduct_estimate ?e1 sample_args) = Returns 120000"
    by (subst estimate_ok[where g = 100000]) (simp_all add: sample_env_def bigint_div_def)
  have g2: "fst (createProduct_estimate ?e2 sample_args) = Returns 120000"
    by (subst estimate_ok[where g = 100000]) (simp_all add: sample_env_def bigint_div_def)
  have t1: "c_createProduct ?e1 sample_args 120000 = Inr ?late" by (simp add: sample_env_def)
  have t2: "c_createProduct ?e2 sample_args 120000 = Inr ?zero" by (simp add: sample_env_def)
  from createProduct_success_without_receipt[OF v1 g1 t1]
       createProduct_success_without_receipt[OF v2 g2 t2,
         of "\<lparr>receipt_status = StatusNum 0, receipt_hash = Some (lit ''0xabc'')\<rparr>"]
  show ?thesis by (simp add: sample_tx_def)
qed

lemma estimate_rpc_error:
  assumes "c_estimateGas_createProduct env args = Inl rpc_error"
  shows "createProduct_estimate env args = (Returns 500000, [Call (EstimateGasCreate args)])"
proof -
  have "\<not> str_includes (lit ''Internal JSON-RPC error.'') (lit ''EnforcedPause'')"
       "\<not> str_includes (lit ''Internal JSON-RPC error.'') (lit ''paused'')"
       "\<not> str_includes (lit ''Internal JSON-RPC error.'') (lit ''revert'')"
       "\<not> str_includes (lit ''Internal JSON-RPC error.'') (lit ''execution reverted'')"
       "lit ''Internal JSON-RPC error.'' \<noteq> []"
    by (simp_all add: lit_def)
  then show ?thesis
    using assms
    by (simp add: createProduct_estimate_def comp_defs rpc_error_def or_default_def or_else_def)
qed

text \<open>
  Claim C3.  The claim is that a paused ledger makes \<open>createProduct\<close> return a
  failure of the pause kind and submit nothing.  On the paused contract of
  \<open>paused_env\<close>, where \<open>paused()\<close> answers \<open>true\<close>, \<open>createProduct\<close> reads
  the flag, goes on to the gas estimate, submits the transaction with the default gas
  limit 500000 and returns success with its hash.
\<close>

theorem createProduct_while_paused:
  "c_paused paused_env = Inr True \<and>
   createProduct paused_env (lit ''Art'') (lit ''A picture'') (lit ''Music'') (lit ''1'')
       (lit ''ipfs://a'') (lit ''ipfs://b'') =
     (Returns (succeeded (Some (lit ''0xabc''))),
      [SetIsLoading True, SetError None, Call Paused, Call (EstimateGasCreate sample_args),
       Call (SendCreate sample_args 500000), Call (Wait (lit ''0xabc'')),
       Call (GetTransaction (lit ''0xabc'')), SetIsLoading False])"
proof -
  have e: "has_signer paused_env" "isAddress paused_env CONTRACT_ADDRESS" "has_provider paused_env"
      "c_paused paused_env = Inr True"
      "c_estimateGas_createProduct paused_env sample_args = Inl rpc_error"
      "c_createProduct paused_env sample_args 500000 = Inr reverted_tx"
      "p_getTransaction paused_env (lit ''0xabc'') = Inr True"
    by (simp_all add: paused_env_def sample_env_def)
  have w: "createProduct_wait paused_env reverted_tx =
      (Returns (Inl (succeeded (Some (lit ''0xabc'')))),
       [Call (Wait (lit ''0xabc'')), Call (GetTransaction (lit ''0xabc''))])"
    by (simp add: createProduct_wait_def race_wait_def comp_defs reverted_tx_def e)
  have s: "createProduct_submit paused_env sample_args =
      (Returns (succeeded (Some (lit ''0xabc''))),
       [Call Paused, Call (EstimateGasCreate sample_args), Call (SendCreate sample_args 500000),
        Call (Wait (lit ''0xabc'')), Call (GetTransaction (lit ''0xabc''))])"
    by (simp add: createProduct_submit_def createProduct_pause_check_ignored
        estimate_rpc_error[OF e(5)] e(6) w bind_def call_def ret_def)
  show ?thesis
    by (simp add: e(4) createProduct_def createProduct_try_def sample_validate[OF e(1,2)] s
        bind_def try_catch_def finally_do_def emit_def)
qed

text \<open>What \<open>paused()\<close> answers has no effect on \<open>createProduct\<close> at all.\<close>

lemma createProduct_submit_ignores_paused:
  "createProduct_submit (env\<lparr>c_paused := x\<rparr>) args = createProduct_submit env args"
  by (simp add: createProduct_submit_def createProduct_pause_check_ignored
      createProduct_estimate_def createProduct_wait_def cong: if_cong sum.case_cong)

lemma createProduct_validate_ignores_paused:
  "createProduct_validate (env\<lparr>c_paused := x\<rparr>) name description category priceInBdag uri thumbnailUri =
   createProduct_validate env name description category priceInBdag uri thumbnailUri"
  by (cases "parseEther priceInBdag")
     (simp_all add: createProduct_validate_def getContract_def validateContractAddress_def
       ethers_parseEther_def)

lemma createProduct_submit_ignores_paused_fun:
  "createProduct_submit (env\<lparr>c_paused := x\<rparr>) = createProduct_submit env"
  by (rule ext) (rule createProduct_submit_ignores_paused)

lemma createProduct_ignores_paused:
  "createProduct (env\<lparr>c_paused := x\<rparr>) name description category priceInBdag uri thumbnailUri =
   createProduct env name description category priceInBdag uri thumbnailUri"
  by (simp add: createProduct_def createProduct_try_def createProduct_submit_ignores_paused_fun
      createProduct_validate_ignores_paused)

subsection \<open>Invalid product ids\<close>

lemma hce_invalid_id:
  "handleContractError (new_Error (lit ''Invalid product ID'')) operation = lit ''Invalid product ID''"
  by (simp add: handleContractError_new_Error) (simp add: lit_def)

lemma hce_name_required:
  "handleContractError (new_Error (lit ''Product name required'')) operation = lit ''Product name required''"
  by (simp add: handleContractError_new_Error) (simp add: lit_def)

lemma report_failure_eq:
  "report_failure operation err =
     (Returns (failure (handleContractError err operation)),
      [SetError (Some (handleContractError err operation))])"
  by (simp add: report_failure_def comp_defs Let_def)

lemma purchase_invalid_id:
  assumes "invalid_id (parseInt pid)"
  shows "purchaseProduct env pid priceInWei =
     (Returns (failure (lit ''Invalid product ID'')),
      [SetIsLoading True, SetError None, SetError (Some (lit ''Invalid product ID'')), SetIsLoading False])"
  using assms by (simp add: purchase_defs hce_invalid_id)

text \<open>What \<open>updateProduct\<close> throws before it reaches the contract when the id is invalid.\<close>

lemma updateProduct_try_invalid_id:
  assumes "invalid_id (parseInt pid)"
  shows "\<exists>e. updateProduct_try env pid name description category priceInBdag = (Throws e, [])"
  using assms
  by (cases "parseEther priceInBdag")
     (simp_all add: updateProduct_try_def getContract_cases ethers_parseEther_def comp_defs)

lemma updateProduct_try_invalid_id_msg:
  assumes "invalid_id (parseInt pid)" "trim name \<noteq> []" "trim description \<noteq> []"
    "priceInBdag \<noteq> []" "\<not> num_le (parseFloat priceInBdag) (Fin 0)"
    "has_signer env" "isAddress env CONTRACT_ADDRESS" "parseEther priceInBdag = Inr wei"
  shows "updateProduct_try env pid name description category priceInBdag =
           (Throws (new_Error (lit ''Invalid product ID'')), [])"
  using assms
  by (simp add: updateProduct_try_def getContract_cases ethers_parseEther_def comp_defs)

lemma updateProduct_of_Throws:
  assumes "updateProduct_try env pid name description category priceInBdag = (Throws e, [])"
  shows "updateProduct env pid name description category priceInBdag =
     (Returns (failure (handleContractError e (lit ''update product''))),
      [SetIsLoading True, SetError None,
       SetError (Some (handleContractError e (lit ''update product''))), SetIsLoading False])"
  using assms by (simp add: updateProduct_def report_failure_eq comp_defs)

lemma getProduct_invalid_id:
  assumes "invalid_id (parseInt pid)"
  shows "fst (getProduct env pid) = Returns None" "ledger_calls (snd (getProduct env pid)) = []"
  using assms
  by (simp_all add: getProduct_def query_def getContract_cases comp_defs ledger_calls_def)

lemma getProduct_invalid_id_error:
  assumes "invalid_id (parseInt pid)" "has_signer env" "isAddress env CONTRACT_ADDRESS"
  shows "snd (getProduct env pid) =
     [SetIsLoading True, SetError None, SetError (Some (lit ''Invalid product ID'')), SetIsLoading False]"
  using assms
  by (simp add: getProduct_def query_def getContract_cases comp_defs hce_invalid_id)

text \<open>
  Claim C8, as amended.  When the product id does not parse to a number above zero,
  \<open>purchaseProduct\<close>, \<open>updateProduct\<close> and \<open>getProduct\<close> make no call on the
  contract.  \<open>purchaseProduct\<close> returns the failure \<open>Invalid product ID\<close>.
  \<open>updateProduct\<close> returns a failure, which is \<open>Invalid product ID\<close> when the
  checks that come before the id check pass (name and description not blank, a price
  above zero that \<open>parseEther\<close> accepts, a connected wallet).  \<open>getProduct\<close>
  returns \<open>null\<close>, and records \<open>Invalid product ID\<close> as the hook's error when a
  wallet is connected.
\<close>

theorem invalid_product_id_rejected:
  "invalid_id (parseInt pid) \<longrightarrow>
     fst (purchaseProduct env pid priceInWei) = Returns (failure (lit ''Invalid product ID'')) \<and>
     ledger_calls (snd (purchaseProduct env pid priceInWei)) = [] \<and>
     (\<exists>msg. fst (updateProduct env pid name description category priceInBdag) = Returns (failure msg)) \<and>
     ledger_calls (snd (updateProduct env pid name description category priceInBdag)) = [] \<and>
     (trim name \<noteq> [] \<and> trim description \<noteq> [] \<and> priceInBdag \<noteq> [] \<and>
      \<not> num_le (parseFloat priceInBdag) (Fin 0) \<and> has_signer env \<and>
      isAddress env CONTRACT_ADDRESS \<and> (\<exists>wei. parseEther priceInBdag = Inr wei) \<longrightarrow>
        fst (updateProduct env pid name description category priceInBdag) =
          Returns (failure (lit ''Invalid product ID''))) \<and>
     fst (getProduct env pid) = Returns None \<and>
     ledger_calls (snd (getProduct env pid)) = [] \<and>
     (has_signer env \<and> isAddress env CONTRACT_ADDRESS \<longrightarrow>
        error_state e0 (snd (getProduct env pid)) = Some (lit ''Invalid product ID''))"
proof (intro impI)
  assume inv: "invalid_id (parseInt pid)"
  from updateProduct_try_invalid_id[OF inv, of env name description category priceInBdag]
  obtain e where e: "updateProduct_try env pid name description category priceInBdag = (Throws e, [])"
    by blast
  note u = updateProduct_of_Throws[OF e]
  have 1: "fst (purchaseProduct env pid priceInWei) = Returns (failure (lit ''Invalid product ID''))"
    and 2: "ledger_calls (snd (purchaseProduct env pid priceInWei)) = []"
    by (simp_all add: purchase_invalid_id[OF inv] ledger_calls_def)
  have 3: "\<exists>msg. fst (updateProduct env pid name description category priceInBdag) = Returns (failure msg)"
    and 4: "ledger_calls (snd (updateProduct env pid name description category priceInBdag)) = []"
    by (auto simp add: u ledger_calls_def)
  have 5: "fst (updateProduct env pid name description category priceInBdag) =
          Returns (failure (lit ''Invalid product ID''))"
    if "trim name \<noteq> [] \<and> trim description \<noteq> [] \<and> priceInBdag \<noteq> [] \<and>
      \<not> num_le (parseFloat priceInBdag) (Fin 0) \<and> has_signer env \<and>
      isAddress env CONTRACT_ADDRESS \<and> (\<exists>wei. parseEther priceInBdag = Inr wei)"
  proof -
    from that obtain wei where "parseEther priceInBdag = Inr wei" by blast
    with that have "updateProduct_try env pid name description category priceInBdag =
           (Throws (new_Error (lit ''Invalid product ID'')), [])"
      by (intro updateProduct_try_invalid_id_msg[OF inv]) auto
    then show ?thesis by (simp add: updateProduct_of_Throws hce_invalid_id)
  qed
  have 6: "error_state e0 (snd (getProduct env pid)) = Some (lit ''Invalid product ID'')"
    if "has_signer env \<and> isAddress env CONTRACT_ADDRESS"
    using that by (simp add: getProduct_invalid_id_error[OF inv])
  from 1 2 3 4 5 6 getProduct_invalid_id[OF inv, of env]
  show "fst (purchaseProduct env pid priceInWei) = Returns (failure (lit ''Invalid product ID'')) \<and>
     ledger_calls (snd (purchaseProduct env pid priceInWei)) = [] \<and>
     (\<exists>msg. fst (updateProduct env pid name description category priceInBdag) = Returns (failure msg)) \<and>
     ledger_calls (snd (updateProduct env pid name description category priceInBdag)) = [] \<and>
     (trim name \<noteq> [] \<and> trim description \<noteq> [] \<and> priceInBdag \<noteq> [] \<and>
      \<not> num_le (parseFloat priceInBdag) (Fin 0) \<and> has_signer env \<and>
      isAddress env CONTRACT_ADDRESS \<and> (\<exists>wei. parseEther priceInBdag = Inr wei) \<longrightarrow>
        fst (updateProduct env pid name description category priceInBdag) =
          Returns (failure (lit ''Invalid product ID''))) \<and>
     fst (getProduct env pid) = Returns None \<and>
     ledger_calls (snd (getProduct env pid)) = [] \<and>
     (has_signer env \<and> isAddress env CONTRACT_ADDRESS \<longrightarrow>
        error_state e0 (snd (getProduct env pid)) = Some (lit ''Invalid product ID''))"
    by blast
qed

lemma invalid_abc: "invalid_id (parseInt (lit ''abc''))"
  by (simp add: parseInt_abc invalid_id_def)

theorem invalid_product_id_rejected_witness:
  "fst (purchaseProduct sample_env (lit ''abc'') 1000) = Returns (failure (lit ''Invalid product ID'')) \<and>
   ledger_calls (snd (purchaseProduct sample_env (lit ''abc'') 1000)) = [] \<and>
   fst (updateProduct sample_env (lit ''abc'') (lit ''Art'') (lit ''A picture'') (lit ''Music'') (lit ''1''))
     = Returns (failure (lit ''Invalid product ID'')) \<and>
   ledger_calls (snd (updateProduct sample_env (lit ''abc'') (lit ''Art'') (lit ''A picture'')
     (lit ''Music'') (lit ''1''))) = [] \<and>
   fst (getProduct sample_env (lit ''abc'')) = Returns None \<and>
   error_state None (snd (getProduct sample_env (lit ''abc''))) = Some (lit ''Invalid product ID'')"
proof -
  have h: "trim (lit ''Art'') \<noteq> [] \<and> trim (lit ''A picture'') \<noteq> [] \<and> lit ''1'' \<noteq> [] \<and>
      \<not> num_le (parseFloat (lit ''1'')) (Fin 0) \<and> has_signer sample_env \<and>
      isAddress sample_env CONTRACT_ADDRESS \<and> (\<exists>wei. parseEther (lit ''1'') = Inr wei)"
    by (simp add: trim_samples parseFloat_1 parseEther_1 sample_env_def) (simp add: lit_def)
  from h invalid_abc
    invalid_product_id_rejected[of "lit ''abc''" sample_env 1000 "lit ''Art''" "lit ''A picture''"
      "lit ''Music''" "lit ''1''" None]
  show ?thesis by blast
qed

text \<open>With a blank name and the id \<open>abc\<close>, \<open>updateProduct\<close> fails with
  \<open>Product name required\<close>, not with \<open>Invalid product ID\<close>.\<close>

theorem updateProduct_invalid_id_other_error:
  "invalid_id (parseInt (lit ''abc'')) \<and>
   fst (updateProduct sample_env (lit ''abc'') [] (lit ''A picture'') (lit ''Music'') (lit ''1''))
     = Returns (failure (lit ''Product name required'')) \<and>
   lit ''Product name required'' \<noteq> lit ''Invalid product ID''"
proof -
  have "updateProduct_try sample_env (lit ''abc'') [] (lit ''A picture'') (lit ''Music'') (lit ''1'')
      = (Throws (new_Error (lit ''Product name required'')), [])"
    by (simp add: updateProduct_try_def comp_defs)
  then have "fst (updateProduct sample_env (lit ''abc'') [] (lit ''A picture'') (lit ''Music'') (lit ''1''))
     = Returns (failure (lit ''Product name required''))"
    by (simp add: updateProduct_of_Throws hce_name_required)
  moreover have "lit ''Product name required'' \<noteq> lit ''Invalid product ID''"
    by (simp add: lit_def)
  ultimately show ?thesis using invalid_abc by simp
qed

subsection \<open>The string checks of createProduct\<close>

lemma bind_Returns:
  "bind (Returns x, evs) f = (fst (f x), evs @ snd (f x))"
  by (simp add: bind_def split: prod.splits)

lemma createProduct_passed:
  assumes "createProduct_validate env name description category priceInBdag uri thumbnailUri = (Returns args, [])"
  shows "\<exists>evs. ledger_calls (snd (createProduct env name description category priceInBdag uri thumbnailUri))
           = Call Paused # evs"
proof -
  obtain r evs where s: "createProduct_submit env args = (r, Call Paused # evs)"
    by (simp add: createProduct_submit_def createProduct_pause_check_ignored bind_Returns)
  have t: "createProduct_try env name description category priceInBdag uri thumbnailUri
             = (r, Call Paused # evs)"
    by (simp add: createProduct_try_def assms bind_Returns s)
  show ?thesis
  proof (cases r)
    case (Throws e)
    from createProduct_catch_failure[of e] obtain msg
      where "createProduct_catch e = (Returns (failure msg), [SetError (Some msg)])" by blast
    with Throws show ?thesis
      by (simp add: createProduct_def t comp_defs ledger_calls_def)
  qed (simp_all add: createProduct_def t comp_defs ledger_calls_def)
qed

text \<open>
  Claim C4, as amended.  \<open>createProduct\<close> returns a failure and makes no call on the
  contract for every request that violates the string constraints taken after
  trimming: a blank name, description, category, file reference or thumbnail
  reference, a trimmed name longer than 100, a trimmed description longer than 500 or
  a trimmed category longer than 50.  A request that satisfies them, with a price above
  zero that \<open>parseEther\<close> accepts and a connected wallet, passes the checks: the
  arguments of the contract call are the trimmed strings, and the first call on the
  contract is made.
\<close>

theorem createProduct_string_validation:
  "(\<not> string_checks name description category uri thumbnailUri \<longrightarrow>
      (\<exists>msg. fst (createProduct env name description category priceInBdag uri thumbnailUri)
                = Returns (failure msg)) \<and>
      ledger_calls (snd (createProduct env name description category priceInBdag uri thumbnailUri)) = []) \<and>
   (string_checks name description category uri thumbnailUri \<and> priceInBdag \<noteq> [] \<and>
    \<not> num_le (parseFloat priceInBdag) (Fin 0) \<and> has_signer env \<and>
    isAddress env CONTRACT_ADDRESS \<and> parseEther priceInBdag = Inr wei \<longrightarrow>
      createProduct_validate env name description category priceInBdag uri thumbnailUri =
        (Returns \<lparr>arg_name = trim name, arg_description = trim description,
                  arg_category = trim category, arg_priceInWei = wei,
                  arg_uri = trim uri, arg_thumbnailUri = trim thumbnailUri\<rparr>, []) \<and>
      (\<exists>evs. ledger_calls (snd (createProduct env name description category priceInBdag uri thumbnailUri))
           = Call Paused # evs))"
proof (intro conjI impI)
  assume n: "\<not> string_checks name description category uri thumbnailUri"
  from createProduct_validate_Throws[OF n, of env priceInBdag] obtain e where
    "fst (createProduct_validate env name description category priceInBdag uri thumbnailUri) = Throws e"
    by blast
  from createProduct_rejected[OF this] obtain msg where
    m: "createProduct env name description category priceInBdag uri thumbnailUri =
     (Returns (failure msg), [SetIsLoading True, SetError None, SetError (Some msg), SetIsLoading False])"
    by blast
  show "\<exists>msg. fst (createProduct env name description category priceInBdag uri thumbnailUri)
                = Returns (failure msg)"
    by (auto simp add: m)
  show "ledger_calls (snd (createProduct env name description category priceInBdag uri thumbnailUri)) = []"
    by (simp add: m ledger_calls_def)
next
  assume a: "string_checks name description category uri thumbnailUri \<and> priceInBdag \<noteq> [] \<and>
    \<not> num_le (parseFloat priceInBdag) (Fin 0) \<and> has_signer env \<and>
    isAddress env CONTRACT_ADDRESS \<and> parseEther priceInBdag = Inr wei"
  then have v: "createProduct_validate env name description category priceInBdag uri thumbnailUri =
        (Returns \<lparr>arg_name = trim name, arg_description = trim description,
                  arg_category = trim category, arg_priceInWei = wei,
                  arg_uri = trim uri, arg_thumbnailUri = trim thumbnailUri\<rparr>, [])"
    by (intro createProduct_validate_Returns) auto
  then show "createProduct_validate env name description category priceInBdag uri thumbnailUri =
        (Returns \<lparr>arg_name = trim name, arg_description = trim description,
                  arg_category = trim category, arg_priceInWei = wei,
                  arg_uri = trim uri, arg_thumbnailUri = trim thumbnailUri\<rparr>, [])" .
  from createProduct_passed[OF v]
  show "\<exists>evs. ledger_calls (snd (createProduct env name description category priceInBdag uri thumbnailUri))
           = Call Paused # evs" .
qed

lemma sample_string_checks:
  "string_checks (lit ''Art'') (lit ''A picture'') (lit ''Music'') (lit ''ipfs://a'') (lit ''ipfs://b'')"
  by (simp add: string_checks_def trim_samples) (simp add: lit_def)

theorem createProduct_string_validation_witness:
  "fst (createProduct sample_env [] (lit ''A picture'') (lit ''Music'') (lit ''1'')
         (lit ''ipfs://a'') (lit ''ipfs://b'')) = Returns (failure (lit ''Product name required'')) \<and>
   ledger_calls (snd (createProduct sample_env [] (lit ''A picture'') (lit ''Music'') (lit ''1'')
         (lit ''ipfs://a'') (lit ''ipfs://b''))) = [] \<and>
   createProduct_validate sample_env (lit ''Art'') (lit ''A picture'') (lit ''Music'') (lit ''1'')
         (lit ''ipfs://a'') (lit ''ipfs://b'') = (Returns sample_args, [])"
proof -
  have n: "\<not> string_checks [] (lit ''A picture'') (lit ''Music'') (lit ''ipfs://a'') (lit ''ipfs://b'')"
    by (simp add: string_checks_def)
  have m: "fst (createProduct sample_env [] (lit ''A picture'') (lit ''Music'') (lit ''1'')
         (lit ''ipfs://a'') (lit ''ipfs://b'')) = Returns (failure (lit ''Product name required''))"
  proof -
    have "createProduct_try sample_env [] (lit ''A picture'') (lit ''Music'') (lit ''1'')
         (lit ''ipfs://a'') (lit ''ipfs://b'') = (Throws (new_Error (lit ''Product name required'')), [])"
      by (simp add: createProduct_try_def createProduct_validate_def comp_defs)
    moreover have "\<not> str_includes (lit ''Product name required'') (lit ''Internal JSON-RPC'')"
       "\<not> str_includes (lit ''Product name required'') (lit ''gas'')"
      by (simp_all add: lit_def)
    ultimately show ?thesis
      by (simp add: createProduct_fst createProduct_catch_new_Error hce_name_required)
  qed
  have p: "lit ''1'' \<noteq> []" "\<not> num_le (parseFloat (lit ''1'')) (Fin 0)"
      "has_signer sample_env" "isAddress sample_env CONTRACT_ADDRESS"
    by (simp_all add: parseFloat_1 sample_env_def) (simp add: lit_def)
  from n m p sample_string_checks parseEther_1
    createProduct_string_validation[of "[]" "lit ''A picture''" "lit ''Music''" "lit ''ipfs://a''"
      "lit ''ipfs://b''" sample_env "lit ''1''" 0]
    createProduct_string_validation[of "lit ''Art''" "lit ''A picture''" "lit ''Music''" "lit ''ipfs://a''"
      "lit ''ipfs://b''" sample_env "lit ''1''" 1000000000000000000]
  show ?thesis by (simp add: sample_args_def trim_samples)
qed

lemma hce_description_required:
  "handleContractError (new_Error (lit ''Description required'')) operation = lit ''Description required''"
  by (simp add: handleContractError_new_Error) (simp add: lit_def)

lemma trim_padded_name: "trim (replicate 100 0x61 @ [0x20]) = replicate 100 0x61"
  by (simp add: trim_def is_whitespace_def dropWhile_append3)

text \<open>An empty description satisfies the constraints the claim lists and is refused
  with \<open>Description required\<close>; a name of 100 letters and a trailing space is longer
  than 100 and passes, trimmed to the 100 letters.\<close>

theorem createProduct_rejects_empty_description:
  "lit ''Art'' \<noteq> [] \<and> length (lit ''Art'') \<le> 100 \<and> length ([] :: jsstring) \<le> 500 \<and>
   lit ''Music'' \<noteq> [] \<and> length (lit ''Music'') \<le> 50 \<and> lit ''ipfs://a'' \<noteq> [] \<and> lit ''ipfs://b'' \<noteq> [] \<and>
   fst (createProduct sample_env (lit ''Art'') [] (lit ''Music'') (lit ''1'')
         (lit ''ipfs://a'') (lit ''ipfs://b'')) = Returns (failure (lit ''Description required'')) \<and>
   100 < length (replicate 100 (0x61 :: code_unit) @ [0x20]) \<and>
   createProduct_validate sample_env (replicate 100 0x61 @ [0x20]) (lit ''A picture'') (lit ''Music'')
         (lit ''1'') (lit ''ipfs://a'') (lit ''ipfs://b'') =
     (Returns (sample_args\<lparr>arg_name := replicate 100 0x61\<rparr>), [])"
proof -
  have a: "lit ''Art'' \<noteq> [] \<and> length (lit ''Art'') \<le> 100 \<and> length ([] :: jsstring) \<le> 500 \<and>
   lit ''Music'' \<noteq> [] \<and> length (lit ''Music'') \<le> 50 \<and> lit ''ipfs://a'' \<noteq> [] \<and> lit ''ipfs://b'' \<noteq> []"
    by (simp add: lit_def)
  have "createProduct_try sample_env (lit ''Art'') [] (lit ''Music'') (lit ''1'')
         (lit ''ipfs://a'') (lit ''ipfs://b'') = (Throws (new_Error (lit ''Description required'')), [])"
    by (simp add: createProduct_try_def createProduct_validate_def comp_defs trim_samples)
       (simp add: lit_def)
  moreover have "\<not> str_includes (lit ''Description required'') (lit ''Internal JSON-RPC'')"
       "\<not> str_includes (lit ''Description required'') (lit ''gas'')"
    by (simp_all add: lit_def)
  ultimately have b: "fst (createProduct sample_env (lit ''Art'') [] (lit ''Music'') (lit ''1'')
         (lit ''ipfs://a'') (lit ''ipfs://b'')) = Returns (failure (lit ''Description required''))"
    by (simp add: createProduct_fst createProduct_catch_new_Error hce_description_required)
  have s: "string_checks (replicate 100 0x61 @ [0x20]) (lit ''A picture'') (lit ''Music'')
      (lit ''ipfs://a'') (lit ''ipfs://b'')"
    using sample_string_checks by (simp add: string_checks_def trim_padded_name)
  have p: "lit ''1'' \<noteq> []" "\<not> num_le (parseFloat (lit ''1'')) (Fin 0)"
      "has_signer sample_env" "isAddress sample_env CONTRACT_ADDRESS"
    by (simp_all add: parseFloat_1 sample_env_def) (simp add: lit_def)
  have c: "createProduct_validate sample_env (replicate 100 0x61 @ [0x20]) (lit ''A picture'') (lit ''Music'')
         (lit ''1'') (lit ''ipfs://a'') (lit ''ipfs://b'') =
     (Returns (sample_args\<lparr>arg_name := replicate 100 0x61\<rparr>), [])"
    using createProduct_validate_Returns[OF s p parseEther_1]
    by (simp add: sample_args_def trim_samples trim_padded_name)
  from a b c show ?thesis by simp
qed

section \<open>Decimal texts and the parsers\<close>

lemma digit_value_nonneg: "digit_value radix c = Some v \<Longrightarrow> 0 \<le> v"
  by (auto simp add: digit_value_def Let_def word_le_def split: if_splits)

lemma digits_value_acc:
  "digits_value radix acc ds = acc * radix ^ length ds + digits_value radix 0 ds"
proof (induction ds arbitrary: acc)
  case Nil
  then show ?case by simp
next
  case (Cons c cs)
  show ?case
    by (subst (1 2) digits_value.simps, subst (1 2) Cons.IH) (simp add: algebra_simps)
qed

lemma digits_value_append:
  "digits_value radix acc (xs @ ys) = digits_value radix (digits_value radix acc xs) ys"
  by (induction xs arbitrary: acc) simp_all

lemma digits_value_nonneg: "0 \<le> acc \<Longrightarrow> 0 \<le> radix \<Longrightarrow> 0 \<le> digits_value radix acc ds"
proof (induction ds arbitrary: acc)
  case Nil
  then show ?case by simp
next
  case (Cons c cs)
  have "0 \<le> (case digit_value radix c of Some v \<Rightarrow> v | None \<Rightarrow> 0)"
    by (auto split: option.splits dest: digit_value_nonneg)
  with Cons.prems show ?case by (auto intro!: Cons.IH)
qed

lemma digit_value_zero: "digit_value 10 0x30 = Some 0"
  by (simp add: digit_value_def)

lemma digits_value_zeros: "digits_value 10 acc (replicate n 0x30) = acc * 10 ^ n"
  by (induction n arbitrary: acc) (simp_all add: digit_value_zero)

lemma all_zeros_replicate:
  "list_all (\<lambda>c. c = z) zs \<Longrightarrow> zs = replicate (length zs) z"
  by (induction zs) simp_all

lemma digits_value_app_zeros:
  "digits_value 10 0 (xs @ replicate n 0x30) = digits_value 10 0 xs * 10 ^ n"
  by (simp add: digits_value_append digits_value_zeros)

lemma point_not_digit: "\<not> is_dec_digit 0x2E"
  by (simp add: is_dec_digit_def)

lemma digit_facts:
  assumes "is_dec_digit c"
  shows "\<not> is_whitespace c" "c \<noteq> 0x2D" "c \<noteq> 0x2B" "c \<noteq> 0x2E" "c \<noteq> 0x49" "c \<noteq> 0x65" "c \<noteq> 0x45"
  using assms by (auto simp add: is_dec_digit_def is_whitespace_def word_le_nat_alt)

lemma takeWhile_digits:
  "list_all is_dec_digit ds \<Longrightarrow> takeWhile is_dec_digit (ds @ 0x2E # rest) = ds"
  "list_all is_dec_digit ds \<Longrightarrow> dropWhile is_dec_digit (ds @ 0x2E # rest) = 0x2E # rest"
  "list_all is_dec_digit ds \<Longrightarrow> takeWhile is_dec_digit ds = ds"
  "list_all is_dec_digit ds \<Longrightarrow> dropWhile is_dec_digit ds = []"
  by (induction ds) (simp_all add: point_not_digit)

text \<open>The parts of a plain decimal text as the two parsers see them.\<close>

lemma plain_decimal_parts:
  assumes "plain_decimal whole decimal x"
  shows "x \<noteq> []" "\<not> is_whitespace (hd x)" "hd x \<noteq> 0x2D" "hd x \<noteq> 0x2B" "hd x \<noteq> 0x49"
    "takeWhile is_dec_digit x = whole"
    "dropWhile is_dec_digit x = (if x = whole then [] else 0x2E # decimal)"
proof -
  from assms have w: "list_all is_dec_digit whole" and d: "list_all is_dec_digit decimal"
    and ne: "whole @ decimal \<noteq> []"
    and x: "x = whole @ 0x2E # decimal \<or> (decimal = [] \<and> x = whole)"
    by (simp_all add: plain_decimal_def)
  from x ne show "x \<noteq> []" by auto
  have hd: "is_dec_digit (hd x) \<or> hd x = 0x2E"
    using x w ne by (cases whole) auto
  then show "\<not> is_whitespace (hd x)" "hd x \<noteq> 0x2D" "hd x \<noteq> 0x2B" "hd x \<noteq> 0x49"
    using digit_facts[of "hd x"] by (auto simp add: is_whitespace_def)
  show "takeWhile is_dec_digit x = whole"
    using x w by (auto simp add: takeWhile_digits)
  show "dropWhile is_dec_digit x = (if x = whole then [] else 0x2E # decimal)"
    using x w by (auto simp add: takeWhile_digits)
qed

lemma starts_with_hd: "starts_with s (p # ps) \<Longrightarrow> s \<noteq> [] \<and> hd s = p"
  by (cases s) simp_all

lemma lit_Infinity_hd: "lit ''Infinity'' = 0x49 # lit ''nfinity''"
  by (simp add: lit_def)

lemma parseFloat_plain_decimal:
  assumes "plain_decimal whole decimal x"
  shows "parseFloat x =
     round_double (of_int (digits_value 10 0 (whole @ decimal)) * 10 powi (- int (length decimal)))"
proof -
  note p = plain_decimal_parts[OF assms]
  from assms have w: "list_all is_dec_digit whole" and d: "list_all is_dec_digit decimal"
    and ne: "whole @ decimal \<noteq> []"
    by (simp_all add: plain_decimal_def)
  have t: "trim_start x = x"
    using p(1,2) by (cases x) (simp_all add: trim_start_def)
  have inf: "\<not> starts_with x (lit ''Infinity'')"
    using p(5) starts_with_hd[of x "0x49" "lit ''nfinity''"] by (auto simp add: lit_Infinity_hd)
  have s1: "(if x \<noteq> [] \<and> (hd x = 0x2B \<or> hd x = 0x2D) then tl x else x) = x"
    using p(3,4) by simp
  have neg: "\<not> (x \<noteq> [] \<and> hd x = 0x2D)" using p(3) by simp
  show ?thesis
  proof (cases "x = whole")
    case True
    with assms have dn: "decimal = []" by (auto simp add: plain_decimal_def)
    have tw: "takeWhile is_dec_digit x = whole" "dropWhile is_dec_digit x = []"
      using p(6,7) True by simp_all
    from ne dn have wn: "whole \<noteq> []" by simp
    show ?thesis
      unfolding parseFloat_def t Let_def s1 tw
      using inf p(1,3) wn by (simp add: dn exponent_part_def)
  next
    case False
    have tw: "takeWhile is_dec_digit x = whole" "dropWhile is_dec_digit x = 0x2E # decimal"
      using p(6,7) False by simp_all
    show ?thesis
      unfolding parseFloat_def t Let_def s1 tw
      using inf p(1,3) ne d by (auto simp add: exponent_part_def takeWhile_digits)
  qed
qed


lemma parseEther_plain_decimal:
  assumes "plain_decimal whole decimal x"
  shows "parseEther x =
     (if \<not> list_all (\<lambda>c. c = 0x30) (drop 18 decimal) then Inl TooManyDecimals
      else let wei = digits_value 10 0 (whole @ take 18 (decimal @ replicate (18 - length decimal) 0x30))
           in if - (2 ^ 511) \<le> wei \<and> wei < 2 ^ 511 then Inr wei else Inl Overflow)"
proof -
  note p = plain_decimal_parts[OF assms]
  from assms have w: "list_all is_dec_digit whole" and d: "list_all is_dec_digit decimal"
    and ne: "whole @ decimal \<noteq> []"
    by (simp_all add: plain_decimal_def)
  have s: "(if x \<noteq> [] \<and> hd x = 0x2D then tl x else x) = x"
    using p(3) by simp
  show ?thesis
  proof (cases "x = whole")
    case True
    with assms have dn: "decimal = []" by (auto simp add: plain_decimal_def)
    have tw: "takeWhile is_dec_digit x = whole" "dropWhile is_dec_digit x = []"
      using p(6,7) True by simp_all
    from ne dn have wn: "whole \<noteq> []" by simp
    show ?thesis
      unfolding parseEther_def Let_def s tw
      using wn p(1,3) by (simp add: dn)
  next
    case False
    have tw: "takeWhile is_dec_digit x = whole" "dropWhile is_dec_digit x = 0x2E # decimal"
      using p(6,7) False by simp_all
    show ?thesis
      unfolding parseEther_def Let_def s tw
      using ne d p(1,3) by (auto simp add: takeWhile_digits)
  qed
qed








section \<open>The price checks\<close>




















section \<open>The currency helpers\<close>

lemma uint_digit_char:
  assumes "0 \<le> (d::int)" "d < 10"
  shows "uint (of_int d + 0x30 :: 16 word) = d + 48"
proof -
  have "uint (word_of_int d :: 16 word) = d"
    using assms by (simp add: uint_word_of_int take_bit_int_eq_self)
  hence "uint (word_of_int d + 0x30 :: 16 word) = (d + 48) mod 2 ^ 16"
    by (simp add: uint_word_ariths)
  thus ?thesis using assms by simp
qed

lemma digit_char:
  assumes "0 \<le> (d::int)" "d < 10"
  shows "is_dec_digit (of_int d + 0x30)" "digit_value 10 (of_int d + 0x30) = Some d"
proof -
  have u: "uint (of_int d + 0x30 :: 16 word) = d + 48" by (rule uint_digit_char[OF assms])
  have a: "(0x30 :: 16 word) \<le> of_int d + 0x30" "(of_int d + 0x30 :: 16 word) \<le> 0x39"
    unfolding word_le_def u using assms by simp_all
  show "is_dec_digit (of_int d + 0x30)" unfolding is_dec_digit_def using a by simp
  show "digit_value 10 (of_int d + 0x30) = Some d"
    unfolding digit_value_def using a u assms by simp
qed

lemma digits_of_digits: "0 \<le> n \<Longrightarrow> list_all is_dec_digit (digits_of n)"
proof (induction n rule: digits_of.induct)
  case (1 n)
  show ?case
  proof (cases "n < 10")
    case True
    with 1 show ?thesis by (subst digits_of.simps) (simp add: digit_char)
  next
    case False
    with 1 have "list_all is_dec_digit (digits_of (n div 10))" by simp
    moreover have "is_dec_digit (of_int (n mod 10) + 0x30)" by (rule digit_char) simp_all
    ultimately show ?thesis using False by (subst digits_of.simps) simp
  qed
qed

lemma digits_of_not_Nil: "digits_of n \<noteq> []"
  by (subst digits_of.simps) simp

lemma digits_value_digits_of: "0 \<le> n \<Longrightarrow> digits_value 10 0 (digits_of n) = n"
proof (induction n rule: digits_of.induct)
  case (1 n)
  show ?case
  proof (cases "n < 10")
    case True
    with 1 show ?thesis by (subst digits_of.simps) (simp add: digit_char)
  next
    case False
    with 1 have ih: "digits_value 10 0 (digits_of (n div 10)) = n div 10" by simp
    have d: "digit_value 10 (of_int (n mod 10) + 0x30) = Some (n mod 10)"
      by (rule digit_char) simp_all
    show ?thesis
      using False by (subst digits_of.simps) (simp add: digits_value_append ih d)
  qed
qed

lemma round_double_not_NaN: "round_double q \<noteq> NaN"
  by (simp add: round_double_def Let_def)

lemma plain_decimal_not_NaN: "plain_decimal whole decimal x \<Longrightarrow> \<not> isNaN (parseFloat x)"
  using round_double_not_NaN
  by (cases "parseFloat x") (auto simp add: parseFloat_plain_decimal)

lemma plain_digits_of: "0 \<le> n \<Longrightarrow> plain_decimal (digits_of n) [] (digits_of n)"
  by (simp add: plain_decimal_def digits_of_digits digits_of_not_Nil)

text \<open>The parts of a decimal text.\<close>

lemma plain_decimal_is_decimal:
  assumes "plain_decimal whole decimal x"
  shows "whole_part x = whole" "fraction_part x = decimal" "is_decimal x"
proof -
  note p = plain_decimal_parts[OF assms]
  show w: "whole_part x = whole" by (simp add: whole_part_def p(6))
  from assms have x: "x = whole @ 0x2E # decimal \<or> (decimal = [] \<and> x = whole)"
    by (simp add: plain_decimal_def)
  show f: "fraction_part x = decimal"
  proof (cases "x = whole")
    case True
    with x have e: "decimal = []" by auto
    have d: "dropWhile is_dec_digit x = []" unfolding p(7) using True by simp
    show ?thesis unfolding fraction_part_def d e by simp
  next
    case False
    have d: "dropWhile is_dec_digit x = 0x2E # decimal" unfolding p(7) using False by simp
    show ?thesis unfolding fraction_part_def d by simp
  qed
  show "is_decimal x" using assms by (simp add: is_decimal_def w f)
qed

lemma is_decimal_value:
  assumes "is_decimal x"
  shows "plain_decimal (whole_part x) (fraction_part x) x"
  using assms by (simp add: is_decimal_def)

text \<open>\<open>bdagToWei\<close> on a decimal text.\<close>

lemma bdagToWei_plain_decimal:
  assumes p: "plain_decimal whole decimal x" and l: "length decimal \<le> 18"
    and b: "digits_value 10 0 (whole @ decimal) * 10 ^ (18 - length decimal) < 2 ^ 511"
  shows "bdagToWei env x =
     (Returns (digits_of (digits_value 10 0 (whole @ decimal) * 10 ^ (18 - length decimal))), [])"
proof -
  let ?wei = "digits_value 10 0 (whole @ decimal) * 10 ^ (18 - length decimal)"
  have n: "x \<noteq> []" "\<not> isNaN (parseFloat x)"
    using plain_decimal_parts(1)[OF p] plain_decimal_not_NaN[OF p] by simp_all
  have nn: "0 \<le> ?wei" by (simp add: digits_value_nonneg)
  have t: "take 18 (decimal @ replicate (18 - length decimal) 0x30) =
      decimal @ replicate (18 - length decimal) 0x30"
    using l by simp
  have v: "digits_value 10 0 (whole @ decimal @ replicate (18 - length decimal) 0x30) = ?wei"
    using digits_value_app_zeros[of "whole @ decimal" "18 - length decimal"] by simp
  have lo: "- (2 ^ 511) \<le> ?wei"
  proof -
    have "- (2 ^ 511) \<le> (0::int)" by simp
    from this nn show ?thesis by (rule order_trans)
  qed
  have pe: "parseEther x = Inr ?wei"
    unfolding parseEther_plain_decimal[OF p] t v using l lo b by (simp add: Let_def)
  show ?thesis
    using n nn by (simp add: bdagToWei_def ethers_parseEther_def pe comp_defs bigint_toString_def)
qed


text \<open>\<open>weiToBdag\<close> on the digits of an amount.\<close>

lemma digit_not_letter:
  assumes "is_dec_digit c"
  shows "c \<noteq> 0x78" "c \<noteq> 0x58" "c \<noteq> 0x6F" "c \<noteq> 0x4F" "c \<noteq> 0x62" "c \<noteq> 0x42"
  using assms by (auto simp add: is_dec_digit_def word_le_nat_alt)

lemma digits_no_prefix:
  assumes "list_all is_dec_digit ds" "\<not> is_dec_digit l"
  shows "\<not> starts_with ds [0x30, l]"
proof (cases ds)
  case Nil
  then show ?thesis by simp
next
  case (Cons c s)
  with assms show ?thesis by (cases s) auto
qed

lemma trim_digits:
  assumes "list_all is_dec_digit ds"
  shows "trim ds = ds"
proof (cases "ds = []")
  case True
  then show ?thesis by (simp add: trim_def)
next
  case False
  with assms have "is_dec_digit (hd ds)" "is_dec_digit (last ds)"
    by (simp_all add: list_all_iff)
  hence h: "\<not> is_whitespace (hd ds)" "\<not> is_whitespace (last ds)"
    by (simp_all add: digit_facts(1))
  have a: "dropWhile is_whitespace ds = ds"
    using h(1) by (simp add: dropWhile_eq_self_iff)
  have b: "dropWhile is_whitespace (rev ds) = rev ds"
    using h(2) False by (simp add: dropWhile_eq_self_iff hd_rev)
  show ?thesis by (simp add: trim_def a b)
qed

lemma StringToBigInt_digits:
  assumes d: "list_all is_dec_digit ds" and ne: "ds \<noteq> []"
  shows "StringToBigInt ds = Some (digits_value 10 0 ds)"
proof -
  have l: "\<not> is_dec_digit 0x78" "\<not> is_dec_digit 0x58" "\<not> is_dec_digit 0x6F"
      "\<not> is_dec_digit 0x4F" "\<not> is_dec_digit 0x62" "\<not> is_dec_digit 0x42"
    by (simp_all add: is_dec_digit_def)
  have p: "\<not> starts_with ds (lit ''0x'')" "\<not> starts_with ds (lit ''0X'')"
      "\<not> starts_with ds (lit ''0o'')" "\<not> starts_with ds (lit ''0O'')"
      "\<not> starts_with ds (lit ''0b'')" "\<not> starts_with ds (lit ''0B'')"
    using l[THEN digits_no_prefix[OF d]] by (simp_all add: lit_def)
  from d ne have "is_dec_digit (hd ds)" by (simp add: list_all_iff)
  hence h: "hd ds \<noteq> 0x2D" "hd ds \<noteq> 0x2B" by (simp_all add: digit_facts)
  show ?thesis
    unfolding StringToBigInt_def trim_digits[OF d] Let_def using p h d ne by simp
qed

lemma formatEther_digits_of:
  assumes "0 \<le> n" "n < 2 ^ 511"
  shows "formatEther (digits_of n) = Inr (fixed_toString n)"
proof -
  have d: "list_all is_dec_digit (digits_of n)" by (rule digits_of_digits[OF assms(1)])
  hence "is_dec_digit (hd (digits_of n))" by (simp add: list_all_iff digits_of_not_Nil)
  hence h: "hd (digits_of n) \<noteq> 0x2D" by (simp add: digit_facts)
  have g: "getBigInt (digits_of n) = Some n"
    using h by (simp add: getBigInt_def digits_of_not_Nil
        StringToBigInt_digits[OF d digits_of_not_Nil] digits_value_digits_of[OF assms(1)])
  have lo: "- (2 ^ 511) \<le> n"
  proof -
    have "- (2 ^ 511) \<le> (0::int)" by simp
    from this assms(1) show ?thesis by (rule order_trans)
  qed
  show ?thesis using lo assms(2) by (simp add: formatEther_def g)
qed

lemma weiToBdag_digits_of:
  assumes "0 \<le> n" "n < 2 ^ 511"
  shows "weiToBdag env (digits_of n) = (Returns (fixed_toString n), [])"
  using plain_decimal_not_NaN[OF plain_digits_of[OF assms(1)]]
  by (simp add: weiToBdag_def ethers_formatEther_def formatEther_digits_of[OF assms]
      digits_of_not_Nil comp_defs)

text \<open>The value of the text that \<open>formatEther\<close> prints.\<close>

lemma takeWhile_same: "takeWhile (\<lambda>c. c = z) w = replicate (length (takeWhile (\<lambda>c. c = z) w)) z"
  by (rule all_zeros_replicate) (auto simp add: list_all_iff dest: set_takeWhileD)

lemma strip_leading_zeros_decomp:
  assumes "w \<noteq> []"
  shows "\<exists>k. w = replicate k 0x30 @ strip_leading_zeros w" "strip_leading_zeros w \<noteq> []"
proof -
  show "\<exists>k. w = replicate k 0x30 @ strip_leading_zeros w"
  proof (cases "dropWhile (\<lambda>c. c = 0x30) w = []")
    case True
    hence "list_all (\<lambda>c. c = 0x30) w" by (simp add: list_all_iff)
    hence r: "w = replicate (length w) 0x30" by (rule all_zeros_replicate)
    from assms obtain m where m: "length w = Suc m" by (cases w) auto
    from assms have "last w \<in> set w" by simp
    with True have "last w = 0x30" by simp
    moreover from assms have "take 1 (rev w) = [hd (rev w)]" by (cases "rev w") simp_all
    ultimately have s: "strip_leading_zeros w = [0x30]"
      unfolding strip_leading_zeros_def Let_def using True assms by (simp add: hd_rev)
    have "w = replicate m 0x30 @ [0x30]"
      by (subst r) (simp add: m replicate_append_same)
    thus ?thesis unfolding s by blast
  next
    case False
    have s: "strip_leading_zeros w = dropWhile (\<lambda>c. c = 0x30) w"
      unfolding strip_leading_zeros_def Let_def if_not_P[OF False] ..
    have "w = takeWhile (\<lambda>c. c = 0x30) w @ dropWhile (\<lambda>c. c = 0x30) w" by simp
    hence "w = replicate (length (takeWhile (\<lambda>c. c = 0x30) w)) 0x30 @ strip_leading_zeros w"
      unfolding s using takeWhile_same[of "0x30" w] by simp
    thus ?thesis by blast
  qed
  show "strip_leading_zeros w \<noteq> []"
    using assms by (cases w) (auto simp add: strip_leading_zeros_def Let_def)
qed

lemma digits_value_leading_zeros:
  "digits_value 10 0 (replicate k 0x30 @ xs) = digits_value 10 0 xs"
  by (simp add: digits_value_append digits_value_zeros)

lemma zero_is_digit: "is_dec_digit 0x30"
  by (simp add: is_dec_digit_def)

lemma fixed_toString_value:
  assumes "0 \<le> n"
  shows "is_decimal (fixed_toString n) \<and> decimal_value (fixed_toString n) = of_int n / 10 ^ 18"
proof -
  define str where "str = digits_of n"
  define padded where "padded = replicate (19 - length str) 0x30 @ str"
  define whole where "whole = take (length padded - 18) padded"
  define decimal where "decimal = drop (length padded - 18) padded"
  define W where "W = strip_leading_zeros whole"
  define F where "F = rev (strip_leading_zeros (rev decimal))"
  have f: "fixed_toString n = W @ 0x2E # F"
    using assms unfolding fixed_toString_def Let_def
    by (simp add: str_def[symmetric] padded_def[symmetric] whole_def[symmetric]
        decimal_def[symmetric] W_def F_def)
  have lp: "19 \<le> length padded" by (simp add: padded_def)
  have dp: "list_all is_dec_digit padded"
    using digits_of_digits[OF assms] by (auto simp add: padded_def str_def zero_is_digit list_all_iff)
  have vp: "digits_value 10 0 padded = n"
    by (simp add: padded_def digits_value_leading_zeros str_def digits_value_digits_of[OF assms])
  have wd: "whole @ decimal = padded" by (simp add: whole_def decimal_def)
  have ld: "length decimal = 18" using lp by (simp add: decimal_def)
  have wn: "whole \<noteq> []" using lp by (auto simp add: whole_def)
  have dn: "rev decimal \<noteq> []" using ld by auto
  from strip_leading_zeros_decomp[OF wn] obtain j where
    j: "whole = replicate j 0x30 @ W" and Wn: "W \<noteq> []"
    by (auto simp add: W_def)
  from strip_leading_zeros_decomp[OF dn] obtain k where
    "rev decimal = replicate k 0x30 @ rev F"
    by (auto simp add: F_def)
  hence "rev (rev decimal) = rev (replicate k 0x30 @ rev F)" by simp
  hence k: "decimal = F @ replicate k 0x30" by simp
  have dW: "list_all is_dec_digit W" and dF: "list_all is_dec_digit F"
    using dp unfolding wd[symmetric] by (subst (asm) j, subst (asm) k, simp)+
  have "plain_decimal W F (W @ 0x2E # F)"
    using dW dF Wn by (simp add: plain_decimal_def)
  note parts = plain_decimal_is_decimal[OF this]
  have "n = digits_value 10 0 (replicate j 0x30 @ (W @ F) @ replicate k 0x30)"
    using vp unfolding wd[symmetric] by (subst (asm) j, subst (asm) k) simp
  hence n: "n = digits_value 10 0 (W @ F) * 10 ^ k"
    by (simp only: digits_value_leading_zeros digits_value_app_zeros)
  have lk: "length F + k = 18" using ld by (subst (asm) k) simp
  have e: "(10::rat) ^ 18 = 10 ^ length F * 10 ^ k"
    unfolding lk[symmetric] by (rule power_add)
  have "rat_of_int n = of_int (digits_value 10 0 (W @ F)) * 10 ^ k"
    by (subst n) simp
  hence "of_int n / (10::rat) ^ 18 =
      of_int (digits_value 10 0 (W @ F)) * 10 ^ k / (10 ^ length F * 10 ^ k)"
    by (simp only: e)
  also have "\<dots> = of_int (digits_value 10 0 (W @ F)) / 10 ^ length F"
    by simp
  finally have "of_int n / (10::rat) ^ 18 = of_int (digits_value 10 0 (W @ F)) / 10 ^ length F" .
  thus ?thesis
    unfolding f by (simp add: parts[unfolded f[symmetric]] decimal_value_def parts)
qed


lemma bdagToWei_refused:
  assumes "x = [] \<or> isNaN (parseFloat x) \<or> (\<exists>f. parseEther x = Inl f)"
  shows "bdagToWei env x = (Throws (new_Error (lit ''Failed to convert BDAG to Wei'')), [])"
  using assms by (auto simp add: bdagToWei_def ethers_parseEther_def comp_defs)

lemma weiToBdag_cases:
  "weiToBdag env wei =
     (if wei = [] \<or> isNaN (parseFloat wei) then (Returns (lit ''0''), [])
      else case formatEther wei of Inl f \<Rightarrow> (Returns (lit ''0''), []) | Inr y \<Rightarrow> (Returns y, []))"
  by (simp add: weiToBdag_def ethers_formatEther_def comp_defs split: sum.splits)

lemma decimal_value_wei:
  assumes "length decimal \<le> 18"
  shows "rat_of_int d / 10 ^ length decimal * 10 ^ 18 = of_int (d * 10 ^ (18 - length decimal))"
proof -
  have "length decimal + (18 - length decimal) = 18" using assms by simp
  hence "(10::rat) ^ 18 = 10 ^ length decimal * 10 ^ (18 - length decimal)"
    by (simp only: power_add[symmetric])
  hence "rat_of_int d / 10 ^ length decimal * 10 ^ 18 =
      rat_of_int d / 10 ^ length decimal * (10 ^ length decimal * 10 ^ (18 - length decimal))"
    by (simp only:)
  also have "\<dots> = of_int d * 10 ^ (18 - length decimal)" by simp
  finally show ?thesis by simp
qed

lemma round_trip:
  assumes d: "is_decimal x" and l: "length (fraction_part x) \<le> 18"
    and b: "decimal_value x * 10 ^ 18 < 2 ^ 511"
  shows "\<exists>w y. fst (bdagToWei env x) = Returns w \<and> fst (weiToBdag env w) = Returns y \<and>
           is_decimal y \<and> decimal_value y = decimal_value x"
proof -
  define wei where
    "wei = digits_value 10 0 (whole_part x @ fraction_part x) * 10 ^ (18 - length (fraction_part x))"
  have p: "plain_decimal (whole_part x) (fraction_part x) x" by (rule is_decimal_value[OF d])
  have v: "decimal_value x * 10 ^ 18 = of_int wei"
    unfolding decimal_value_def wei_def by (rule decimal_value_wei[OF l])
  have nn: "0 \<le> wei" by (simp add: wei_def digits_value_nonneg)
  have "rat_of_int wei < of_int (2 ^ 511)" using b unfolding v by simp
  hence lt: "wei < 2 ^ 511" by (simp only: of_int_less_iff)
  have 1: "bdagToWei env x = (Returns (digits_of wei), [])"
    unfolding wei_def by (rule bdagToWei_plain_decimal[OF p l lt[unfolded wei_def]])
  have 2: "weiToBdag env (digits_of wei) = (Returns (fixed_toString wei), [])"
    by (rule weiToBdag_digits_of[OF nn lt])
  have "decimal_value x = of_int wei / 10 ^ 18" using v by simp
  with fixed_toString_value[OF nn]
  have 3: "is_decimal (fixed_toString wei)" "decimal_value (fixed_toString wei) = decimal_value x"
    by simp_all
  show ?thesis using 1 2 3 by simp
qed

text \<open>
  Claim C9, as amended.  For every decimal text \<open>x\<close> (digits, optionally a point and
  more digits) with at most 18 digits after the point whose amount in wei is below
  \<open>2 ^ 511\<close>, \<open>bdagToWei\<close> returns a text \<open>w\<close>, \<open>weiToBdag\<close> of \<open>w\<close> returns a
  decimal text, and that text denotes the same number as \<open>x\<close>.  \<open>bdagToWei\<close> throws
  \<open>Failed to convert BDAG to Wei\<close> on the empty string, on a string that
  \<open>parseFloat\<close> reads as NaN and on a string that \<open>parseEther\<close> refuses.
  \<open>weiToBdag\<close> always returns a text, and returns \<open>0\<close> on the empty string, on a
  string read as NaN and on a string that \<open>formatEther\<close> refuses.
\<close>

theorem currency_round_trip:
  "(is_decimal x \<and> length (fraction_part x) \<le> 18 \<and> decimal_value x * 10 ^ 18 < 2 ^ 511 \<longrightarrow>
      (\<exists>w y. fst (bdagToWei env x) = Returns w \<and> fst (weiToBdag env w) = Returns y \<and>
             is_decimal y \<and> decimal_value y = decimal_value x)) \<and>
   (x = [] \<or> isNaN (parseFloat x) \<or> (\<exists>f. parseEther x = Inl f) \<longrightarrow>
      fst (bdagToWei env x) = Throws (new_Error (lit ''Failed to convert BDAG to Wei''))) \<and>
   (\<exists>y. fst (weiToBdag env wei) = Returns y) \<and>
   (wei = [] \<or> isNaN (parseFloat wei) \<or> (\<exists>f. formatEther wei = Inl f) \<longrightarrow>
      fst (weiToBdag env wei) = Returns (lit ''0''))"
proof (intro conjI impI)
  assume "is_decimal x \<and> length (fraction_part x) \<le> 18 \<and> decimal_value x * 10 ^ 18 < 2 ^ 511"
  then show "\<exists>w y. fst (bdagToWei env x) = Returns w \<and> fst (weiToBdag env w) = Returns y \<and>
             is_decimal y \<and> decimal_value y = decimal_value x"
    using round_trip[of x env] by simp
next
  assume "x = [] \<or> isNaN (parseFloat x) \<or> (\<exists>f. parseEther x = Inl f)"
  then show "fst (bdagToWei env x) = Throws (new_Error (lit ''Failed to convert BDAG to Wei''))"
    by (simp add: bdagToWei_refused)
next
  show "\<exists>y. fst (weiToBdag env wei) = Returns y"
    by (simp add: weiToBdag_cases split: sum.splits)
next
  assume "wei = [] \<or> isNaN (parseFloat wei) \<or> (\<exists>f. formatEther wei = Inl f)"
  then show "fst (weiToBdag env wei) = Returns (lit ''0'')"
    by (auto simp add: weiToBdag_cases)
qed

lemma is_decimal_sample:
  "is_decimal (lit ''1.5'')" "length (fraction_part (lit ''1.5'')) \<le> 18"
  "decimal_value (lit ''1.5'') * 10 ^ 18 < 2 ^ 511"
  by (simp_all add: is_decimal_def plain_decimal_def whole_part_def fraction_part_def
      decimal_value_def lit_def is_dec_digit_def digit_value_def)

lemma parseFloat_abc: "isNaN (parseFloat (lit ''abc''))"
  by (simp add: parseFloat_def lit_def trim_start_def is_whitespace_def is_dec_digit_def Let_def)

theorem currency_round_trip_witness:
  "(\<exists>w y. fst (bdagToWei sample_env (lit ''1.5'')) = Returns w \<and>
          fst (weiToBdag sample_env w) = Returns y \<and>
          is_decimal y \<and> decimal_value y = decimal_value (lit ''1.5'')) \<and>
   fst (bdagToWei sample_env (lit ''abc'')) =
     Throws (new_Error (lit ''Failed to convert BDAG to Wei'')) \<and>
   fst (weiToBdag sample_env (lit ''abc'')) = Returns (lit ''0'')"
  using currency_round_trip[of "lit ''1.5''" sample_env "lit ''abc''"]
    currency_round_trip[of "lit ''abc''" sample_env "lit ''abc''"]
    is_decimal_sample parseFloat_abc
  by blast

text \<open>An amount of \<open>10 ^ 140\<close> BDAG, written as \<open>1\<close> and 140 zeros, is refused.\<close>

theorem bdagToWei_refuses_large_amount:
  "is_decimal (0x31 # replicate 140 0x30) \<and>
   length (fraction_part (0x31 # replicate 140 0x30)) \<le> 18 \<and>
   0 < decimal_value (0x31 # replicate 140 0x30) \<and>
   fst (bdagToWei sample_env (0x31 # replicate 140 0x30)) =
     Throws (new_Error (lit ''Failed to convert BDAG to Wei''))"
proof -
  let ?x = "0x31 # replicate 140 0x30 :: jsstring"
  have one: "is_dec_digit 0x31" "digit_value 10 0x31 = Some 1"
    by (simp_all add: is_dec_digit_def digit_value_def)
  have p: "plain_decimal ?x [] ?x"
    by (simp add: plain_decimal_def one zero_is_digit list_all_iff)
  note parts = plain_decimal_is_decimal[OF p]
  have v: "digits_value 10 0 ?x = 10 ^ 140"
    by (simp add: one digits_value_zeros)
  have t: "take 18 ([] @ replicate (18 - length ([]::jsstring)) (0x30::code_unit)) = replicate 18 0x30"
    by simp
  have w: "digits_value 10 0 (?x @ replicate 18 0x30) = 10 ^ 140 * 10 ^ 18"
    unfolding digits_value_app_zeros v ..
  have o: "\<not> ((10::int) ^ 140 * 10 ^ 18 < 2 ^ 511)" by simp
  have "parseEther ?x = Inl Overflow"
    unfolding parseEther_plain_decimal[OF p] t w using o by (simp add: Let_def)
  hence "\<exists>f. parseEther ?x = Inl f" by blast
  hence "fst (bdagToWei sample_env ?x) = Throws (new_Error (lit ''Failed to convert BDAG to Wei''))"
    by (simp add: bdagToWei_refused)
  moreover have "0 < decimal_value ?x"
    unfolding decimal_value_def parts append_Nil2 v by simp
  ultimately show ?thesis using parts by simp
qed

section \<open>The fee preview\<close>















end
